theory Spec2Isabelle
  imports Complex_Main
begin

section \<open>Text\<close>

text \<open>
  Python strings that the pipeline only stores, compares or concatenates are modelled as
  HOL strings (byte strings). Text that is inspected character by character (the replies of
  the generative-text service) is a list of Unicode code points, because \<open>strip\<close>,
  \<open>isdigit\<close> and \<open>startswith\<close> work on code points.
\<close>

type_synonym pystr = "nat list"

definition ascii :: "string \<Rightarrow> pystr" where
  "ascii s = map of_char s"

text \<open>\<open>str.isspace\<close> of one character (the complete list of CPython's whitespace table).\<close>

definition py_isspace :: "nat \<Rightarrow> bool" where
  "py_isspace c \<longleftrightarrow>
     (9 \<le> c \<and> c \<le> 13) \<or> (28 \<le> c \<and> c \<le> 32) \<or> c = 133 \<or> c = 160 \<or> c = 5760 \<or>
     (8192 \<le> c \<and> c \<le> 8202) \<or> c = 8232 \<or> c = 8233 \<or> c = 8239 \<or> c = 8287 \<or> c = 12288"

text \<open>
  \<open>str.isdigit\<close> of one character. Below 128 the digits are \<open>0\<close> to \<open>9\<close>; which
  code points from 128 on count as digits is decided by the Unicode database, which is
  not part of the repository and is taken as the parameter \<open>ud\<close>.
\<close>

definition py_isdigit :: "(nat \<Rightarrow> bool) \<Rightarrow> nat \<Rightarrow> bool" where
  "py_isdigit ud c = (if c < 128 then 48 \<le> c \<and> c \<le> 57 else ud c)"

definition py_strip :: "pystr \<Rightarrow> pystr" where
  "py_strip s = rev (dropWhile py_isspace (rev (dropWhile py_isspace s)))"

definition startswith :: "pystr \<Rightarrow> pystr \<Rightarrow> bool" where
  "startswith s p \<longleftrightarrow> take (length p) s = p"

text \<open>\<open>s.split(sep)\<close> for a one-character separator: \<open>n\<close> separators give \<open>n + 1\<close> pieces.\<close>

fun split_acc :: "nat \<Rightarrow> pystr \<Rightarrow> pystr \<Rightarrow> pystr list" where
  "split_acc sep cur [] = [rev cur]"
| "split_acc sep cur (c # cs) =
     (if c = sep then rev cur # split_acc sep [] cs else split_acc sep (c # cur) cs)"

definition py_split :: "pystr \<Rightarrow> nat \<Rightarrow> pystr list" where
  "py_split s sep = split_acc sep [] s"

text \<open>\<open>len(s.split())\<close>: the number of maximal runs of non-whitespace characters.\<close>

fun count_words :: "bool \<Rightarrow> pystr \<Rightarrow> nat" where
  "count_words inside [] = 0"
| "count_words inside (c # cs) =
     (if py_isspace c then count_words False cs
      else if inside then count_words True cs
      else Suc (count_words True cs))"

text \<open>\<open>str(n)\<close> for a Python integer.\<close>

fun str_nat :: "nat \<Rightarrow> string" where
  "str_nat n =
     (if n < 10 then [''0123456789'' ! n]
      else str_nat (n div 10) @ [''0123456789'' ! (n mod 10)])"

definition str_int :: "int \<Rightarrow> string" where
  "str_int i = (if i < 0 then CHR ''-'' # str_nat (nat (- i)) else str_nat (nat i))"

section \<open>Exceptions and task outcomes\<close>

text \<open>An exception is its class name and the text \<open>str(exc)\<close>.\<close>

datatype exn = Exn (exn_class: string) (str_exn: string)

datatype 'a outcome = Returned 'a | Retry exn nat | Raised exn

text \<open>
  \<open>self.retry(exc=exc, countdown=c)\<close> of a bound Celery task: when the retry that would be
  scheduled exceeds \<open>max_retries\<close> the given exception is raised; otherwise the task is
  queued again after \<open>c\<close> seconds and \<open>Retry\<close> is raised. \<open>retries\<close> is
  \<open>self.request.retries\<close>, which is 0 on the first delivery.
\<close>

definition self_retry :: "nat \<Rightarrow> nat \<Rightarrow> exn \<Rightarrow> nat \<Rightarrow> 'a outcome" where
  "self_retry max_retries retries exc countdown =
     (if max_retries < retries + 1 then Raised exc else Retry exc countdown)"

section \<open>Data model\<close>

text \<open>
  One record per Django model, with the fields the tasks read or write. Primary keys are
  UUIDs in the source; here a recording's id is the string the tasks receive, and the other
  rows take their id from a counter.
\<close>

record recording =
  rec_id :: string
  rec_status :: string
  rec_error_message :: string
  rec_completed_at :: "real option"

record recording_file =
  rf_id :: nat
  rf_recording :: string
  rf_file_type :: string
  rf_s3_key :: string
  rf_s3_bucket :: string
  rf_file_size_bytes :: nat

record processing_job =
  job_id :: nat
  job_recording :: string
  job_status :: string
  job_current_step :: string
  job_progress_percentage :: int
  job_celery_task_id :: string
  job_error_message :: string
  job_retry_count :: int
  job_max_retries :: int
  job_started_at :: "real option"
  job_completed_at :: "real option"

record processing_step =
  step_id :: nat
  step_job :: nat
  step_name :: string
  step_status :: string
  step_input_file :: string
  step_output_file :: string
  step_started_at :: "real option"
  step_completed_at :: "real option"
  step_duration_seconds :: "real option"
  step_error_message :: string
  step_error_traceback :: string
  step_metadata :: "(string \<times> nat) list"

section \<open>External services\<close>

record word_info =
  w_word :: string
  w_start :: real
  w_end :: real
  w_confidence :: real

text \<open>
  One utterance of the speech-to-text reply. Diarization is requested, so every utterance
  carries an integer speaker.
\<close>

record utterance =
  u_start :: real
  u_end :: real
  u_transcript :: string
  u_confidence :: real
  u_speaker :: int
  u_words :: "word_info list option"

text \<open>
  The reply of the speech-to-text service: \<open>dg_transcript\<close>, \<open>dg_confidence\<close> and
  \<open>dg_utterances\<close> are those of \<open>results.channels[0].alternatives[0]\<close>;
  \<open>dg_language\<close> is \<open>None\<close> when the metadata has no \<open>language\<close> attribute.
\<close>

record dg_response =
  dg_transcript :: string
  dg_confidence :: real
  dg_utterances :: "utterance list option"
  dg_language :: "string option"
  dg_duration :: real

datatype proc_result =
    Completed (returncode: int) (stderr: string) (wrote: "string option")
  | TimeoutExpired (wrote: "string option")

record gem_response =
  gr_text :: pystr
  gr_total_token_count :: "int option"

datatype analysis_data =
    SummaryData pystr nat
  | ItemsData "pystr list" nat
  | PointsData "pystr list" nat
  | SentimentData pystr

record analysis_result =
  ar_data :: analysis_data
  ar_text :: pystr
  ar_time :: real
  ar_tokens :: int

record transcription =
  tr_id :: nat
  tr_recording :: string
  tr_full_text :: string
  tr_confidence_score :: real
  tr_language_detected :: string
  tr_num_speakers :: nat
  tr_audio_duration_seconds :: real
  tr_processing_time_seconds :: real
  tr_deepgram_response :: dg_response

record transcription_segment =
  seg_id :: nat
  seg_transcription :: nat
  seg_start_time_seconds :: real
  seg_end_time_seconds :: real
  seg_text :: string
  seg_confidence_score :: real
  seg_speaker_id :: "int option"
  seg_speaker_label :: string
  seg_words :: "word_info list"

record ai_analysis =
  an_id :: nat
  an_recording :: string
  an_analysis_type :: string
  an_result_data :: analysis_data
  an_result_text :: pystr
  an_model_version :: string
  an_tokens_used :: int
  an_processing_time_seconds :: real

datatype stage = Convert | ExtractAudio | Transcribe | Analyze

text \<open>A message on the work queue: a task, its argument and the rest of its chain.\<close>

datatype message = Message (msg_task: stage) (msg_arg: string) (msg_chain: "(stage \<times> string) list")

text \<open>
  Everything the tasks read and write: the database tables, the object store (one bucket,
  key to bytes), the worker's local files (path to bytes) and the work queue.
\<close>

record world =
  recordings :: "recording list"
  recording_files :: "recording_file list"
  jobs :: "processing_job list"
  steps :: "processing_step list"
  transcriptions :: "transcription list"
  segments :: "transcription_segment list"
  analyses :: "ai_analysis list"
  next_id :: nat
  bucket :: "string \<rightharpoonup> string"
  tmp :: "string \<rightharpoonup> string"
  queue :: "message list"

record settings =
  AWS_STORAGE_BUCKET_NAME :: string
  DEEPGRAM_API_KEY :: string
  GEMINI_API_KEY :: string

text \<open>
  What one delivery of a task meets outside the database: the successive readings of
  \<open>timezone.now()\<close> and of \<open>time.time()\<close>, the id of the request, faults of the object
  store and of the broker, and the behaviour of the three external engines.
\<close>

record env =
  now :: "nat \<Rightarrow> real"
  time_time :: "nat \<Rightarrow> real"
  request_id :: string
  download_fault :: "exn option"
  upload_fault :: "exn option"
  broker_fault :: "exn option"
  subprocess_run :: "string list \<Rightarrow> proc_result"
  transcribe_file :: "string \<Rightarrow> exn + dg_response"
  generate_content :: "string \<Rightarrow> exn + gem_response"

section \<open>Database operations\<close>

text \<open>\<open>QuerySet.get\<close> on the rows that match.\<close>

definition objects_get :: "string \<Rightarrow> 'a list \<Rightarrow> exn + 'a" where
  "objects_get model rows =
     (case rows of
        [] \<Rightarrow> Inl (Exn ''DoesNotExist'' (model @ '' matching query does not exist.''))
      | [x] \<Rightarrow> Inr x
      | _ # _ # _ \<Rightarrow> Inl (Exn ''MultipleObjectsReturned'' (''get() returned more than one '' @ model)))"

text \<open>The reverse accessor of a one-to-one field, such as \<open>recording.processing_job\<close>.\<close>

definition related_object :: "string \<Rightarrow> 'a list \<Rightarrow> exn + 'a" where
  "related_object name rows =
     (case rows of
        [] \<Rightarrow> Inl (Exn ''RelatedObjectDoesNotExist'' (''Recording has no '' @ name @ ''.''))
      | [x] \<Rightarrow> Inr x
      | _ # _ # _ \<Rightarrow> Inl (Exn ''MultipleObjectsReturned'' (''get() returned more than one '' @ name)))"

text \<open>A violated uniqueness constraint; the wording of the text is the database's.\<close>

definition integrity_error :: "string \<Rightarrow> exn" where
  "integrity_error columns = Exn ''IntegrityError'' (''UNIQUE constraint failed: '' @ columns)"

text \<open>\<open>save()\<close> of an object: the row with its primary key is replaced, or inserted.\<close>

definition save_row :: "('a \<Rightarrow> 'k) \<Rightarrow> 'a \<Rightarrow> 'a list \<Rightarrow> 'a list" where
  "save_row pk x rows =
     (if \<exists>y \<in> set rows. pk y = pk x then map (\<lambda>y. if pk y = pk x then x else y) rows
      else rows @ [x])"

definition Recording_get :: "string \<Rightarrow> world \<Rightarrow> exn + recording" where
  "Recording_get recording_id w =
     objects_get ''Recording'' (filter (\<lambda>r. rec_id r = recording_id) (recordings w))"

definition recording_save :: "recording \<Rightarrow> world \<Rightarrow> world" where
  "recording_save r w = w\<lparr>recordings := save_row rec_id r (recordings w)\<rparr>"

definition processing_job_of :: "string \<Rightarrow> world \<Rightarrow> exn + processing_job" where
  "processing_job_of recording_id w =
     related_object ''processing_job'' (filter (\<lambda>j. job_recording j = recording_id) (jobs w))"

definition transcription_of :: "string \<Rightarrow> world \<Rightarrow> exn + transcription" where
  "transcription_of recording_id w =
     related_object ''transcription''
       (filter (\<lambda>t. tr_recording t = recording_id) (transcriptions w))"

definition files_get :: "string \<Rightarrow> string \<Rightarrow> world \<Rightarrow> exn + recording_file" where
  "files_get recording_id file_type w =
     objects_get ''RecordingFile''
       (filter (\<lambda>f. rf_recording f = recording_id \<and> rf_file_type f = file_type)
          (recording_files w))"

text \<open>\<open>ProcessingJob.recording\<close> is one-to-one: a second job for a recording is refused.\<close>

definition ProcessingJob_create ::
  "string \<Rightarrow> string \<Rightarrow> string \<Rightarrow> real option \<Rightarrow> world \<Rightarrow> exn + processing_job \<times> world" where
  "ProcessingJob_create recording_id celery_task_id status started_at w =
     (if \<exists>j \<in> set (jobs w). job_recording j = recording_id
      then Inl (integrity_error ''processing_processingjob.recording_id'')
      else
        (let job = \<lparr>job_id = next_id w, job_recording = recording_id, job_status = status,
                    job_current_step = [], job_progress_percentage = 0,
                    job_celery_task_id = celery_task_id, job_error_message = [],
                    job_retry_count = 0, job_max_retries = 3, job_started_at = started_at,
                    job_completed_at = None\<rparr>
         in Inr (job, w\<lparr>jobs := jobs w @ [job], next_id := Suc (next_id w)\<rparr>)))"

definition job_save :: "processing_job \<Rightarrow> world \<Rightarrow> world" where
  "job_save j w = w\<lparr>jobs := save_row job_id j (jobs w)\<rparr>"

text \<open>\<open>unique_together = [['job', 'step_name']]\<close>: a second step of a job and name is refused.\<close>

definition ProcessingStep_create ::
  "nat \<Rightarrow> string \<Rightarrow> string \<Rightarrow> real option \<Rightarrow> world \<Rightarrow> exn + processing_step \<times> world" where
  "ProcessingStep_create job name status started_at w =
     (if \<exists>s \<in> set (steps w). step_job s = job \<and> step_name s = name
      then Inl (integrity_error
                  ''processing_processingstep.job_id, processing_processingstep.step_name'')
      else
        (let step = \<lparr>step_id = next_id w, step_job = job, step_name = name,
                     step_status = status, step_input_file = [], step_output_file = [],
                     step_started_at = started_at, step_completed_at = None,
                     step_duration_seconds = None, step_error_message = [],
                     step_error_traceback = [], step_metadata = []\<rparr>
         in Inr (step, w\<lparr>steps := steps w @ [step], next_id := Suc (next_id w)\<rparr>)))"

definition step_save :: "processing_step \<Rightarrow> world \<Rightarrow> world" where
  "step_save s w = w\<lparr>steps := save_row step_id s (steps w)\<rparr>"

text \<open>\<open>unique_together = [['recording', 'file_type']]\<close>.\<close>

definition RecordingFile_create ::
  "string \<Rightarrow> string \<Rightarrow> string \<Rightarrow> string \<Rightarrow> nat \<Rightarrow> world \<Rightarrow> exn + world" where
  "RecordingFile_create recording_id file_type s3_key s3_bucket file_size_bytes w =
     (if \<exists>f \<in> set (recording_files w). rf_recording f = recording_id \<and> rf_file_type f = file_type
      then Inl (integrity_error
                  ''recordings_recordingfile.recording_id, recordings_recordingfile.file_type'')
      else
        (let f = \<lparr>rf_id = next_id w, rf_recording = recording_id, rf_file_type = file_type,
                  rf_s3_key = s3_key, rf_s3_bucket = s3_bucket,
                  rf_file_size_bytes = file_size_bytes\<rparr>
         in Inr (w\<lparr>recording_files := recording_files w @ [f], next_id := Suc (next_id w)\<rparr>)))"

section \<open>Object store and local files\<close>

definition file_not_found :: "string \<Rightarrow> exn" where
  "file_not_found path = Exn ''FileNotFoundError'' (''[Errno 2] No such file or directory: '' @ path)"

definition download_from_s3 :: "env \<Rightarrow> string \<Rightarrow> string \<Rightarrow> world \<Rightarrow> exn + world" where
  "download_from_s3 e s3_key local_path w =
     (case download_fault e of
        Some exc \<Rightarrow> Inl exc
      | None \<Rightarrow>
          (case bucket w s3_key of
             None \<Rightarrow> Inl (Exn ''ClientError''
                           ''An error occurred (404) when calling the HeadObject operation: Not Found'')
           | Some bytes \<Rightarrow> Inr (w\<lparr>tmp := (tmp w)(local_path \<mapsto> bytes)\<rparr>)))"

definition upload_to_s3 :: "env \<Rightarrow> string \<Rightarrow> string \<Rightarrow> world \<Rightarrow> exn + world" where
  "upload_to_s3 e local_path s3_key w =
     (case tmp w local_path of
        None \<Rightarrow> Inl (file_not_found local_path)
      | Some bytes \<Rightarrow>
          (case upload_fault e of
             Some exc \<Rightarrow> Inl exc
           | None \<Rightarrow> Inr (w\<lparr>bucket := (bucket w)(s3_key \<mapsto> bytes)\<rparr>)))"

text \<open>
  \<open>subprocess.run(command, timeout=1800)\<close> of the transcoder: whatever it wrote to its
  output path is there afterwards, whether it finished or timed out.
\<close>

definition run_ffmpeg :: "env \<Rightarrow> string list \<Rightarrow> string \<Rightarrow> world \<Rightarrow> (exn + int \<times> string) \<times> world" where
  "run_ffmpeg e command out_path w =
     (let result = subprocess_run e command;
          w1 = (case wrote result of None \<Rightarrow> w | Some bytes \<Rightarrow> w\<lparr>tmp := (tmp w)(out_path \<mapsto> bytes)\<rparr>)
      in case result of
           TimeoutExpired _ \<Rightarrow>
             (Inl (Exn ''TimeoutExpired'' ''Command timed out after 1800 seconds''), w1)
         | Completed rc err _ \<Rightarrow> (Inr (rc, err), w1))"

text \<open>\<open>os.remove\<close> of each path in turn.\<close>

fun os_remove_all :: "string list \<Rightarrow> world \<Rightarrow> (exn + unit) \<times> world" where
  "os_remove_all [] w = (Inr (), w)"
| "os_remove_all (path # paths) w =
     (case tmp w path of
        None \<Rightarrow> (Inl (file_not_found path), w)
      | Some _ \<Rightarrow> os_remove_all paths (w\<lparr>tmp := (tmp w)(path := None)\<rparr>))"

section \<open>Helper functions for AI analysis\<close>

definition action_items_prompt :: "string \<Rightarrow> string" where
  "action_items_prompt transcript =
     ''Analyze the following conversation and extract all action items, tasks, and to-dos mentioned.'' @
     [CHR 0x0A] @ ''For each action item, provide:'' @
     [CHR 0x0A] @ ''- The action/task description'' @
     [CHR 0x0A] @ ''- Priority level (high/medium/low)'' @
     [CHR 0x0A] @ ''- Who it'' @ [CHR 0x27] @ ''s assigned to (if mentioned)'' @
     [CHR 0x0A, CHR 0x0A] @ ''Format as a numbered list.'' @
     [CHR 0x0A, CHR 0x0A] @ ''Transcript:'' @
     [CHR 0x0A] @ transcript @
     [CHR 0x0A, CHR 0x0A] @ ''Action Items:''"

text \<open>The parsing loop of \<open>extract_action_items\<close>; \<open>items\<close> is the list built so far.\<close>

fun action_items_loop :: "(nat \<Rightarrow> bool) \<Rightarrow> pystr list \<Rightarrow> pystr list \<Rightarrow> pystr list" where
  "action_items_loop ud [] items = items"
| "action_items_loop ud (line # rest) items =
     (let line = py_strip line in
      if line \<noteq> [] \<and>
         ((case line of [] \<Rightarrow> False | c # _ \<Rightarrow> py_isdigit ud c) \<or>
          startswith line (ascii ''-'') \<or> startswith line (ascii ''*''))
      then action_items_loop ud rest (items @ [line])
      else action_items_loop ud rest items)"

definition tokens_of :: "gem_response \<Rightarrow> int" where
  "tokens_of response = (case gr_total_token_count response of Some n \<Rightarrow> n | None \<Rightarrow> 0)"

text \<open>
  Each helper reads \<open>time.time()\<close> twice; \<open>i\<close> is the number of readings made before
  the helper is entered.
\<close>

definition extract_action_items ::
  "(nat \<Rightarrow> bool) \<Rightarrow> env \<Rightarrow> nat \<Rightarrow> string \<Rightarrow> exn + analysis_result" where
  "extract_action_items ud e i transcript =
     (let start_time = time_time e i in
      case generate_content e (action_items_prompt transcript) of
        Inl exc \<Rightarrow> Inl exc
      | Inr response \<Rightarrow>
          (let processing_time = time_time e (i + 1) - start_time;
               items_text = gr_text response;
               items = action_items_loop ud (py_split items_text 10) []
           in Inr \<lparr>ar_data = ItemsData items (length items),
                   ar_text = items_text,
                   ar_time = processing_time,
                   ar_tokens = tokens_of response\<rparr>))"

text \<open>
  The parser as the specification words it: the stripped, non-empty lines whose first
  character is a digit, or which start with \<open>-\<close> or \<open>*\<close>.
\<close>

definition spec_is_list_item :: "(nat \<Rightarrow> bool) \<Rightarrow> pystr \<Rightarrow> bool" where
  "spec_is_list_item ud l \<longleftrightarrow>
     l \<noteq> [] \<and> (py_isdigit ud (hd l) \<or> hd l = of_char CHR ''-'' \<or> hd l = of_char CHR ''*'')"

definition spec_action_items :: "(nat \<Rightarrow> bool) \<Rightarrow> pystr \<Rightarrow> pystr list" where
  "spec_action_items ud txt = filter (spec_is_list_item ud) (map py_strip (py_split txt 10))"

definition summary_prompt :: "string \<Rightarrow> string" where
  "summary_prompt transcript =
     ''Please provide a concise summary of the following conversation or recording.'' @
     [CHR 0x0A] @ ''Focus on the main topics discussed, key decisions made, and overall purpose of the conversation.'' @
     [CHR 0x0A] @ ''Keep the summary to 2-3 paragraphs.'' @
     [CHR 0x0A, CHR 0x0A] @ ''Transcript:'' @
     [CHR 0x0A] @ transcript @
     [CHR 0x0A, CHR 0x0A] @ ''Summary:''"

definition generate_summary :: "env \<Rightarrow> nat \<Rightarrow> string \<Rightarrow> exn + analysis_result" where
  "generate_summary e i transcript =
     (let start_time = time_time e i in
      case generate_content e (summary_prompt transcript) of
        Inl exc \<Rightarrow> Inl exc
      | Inr response \<Rightarrow>
          (let processing_time = time_time e (i + 1) - start_time;
               summary_text = gr_text response
           in Inr \<lparr>ar_data = SummaryData summary_text (count_words False summary_text),
                   ar_text = summary_text,
                   ar_time = processing_time,
                   ar_tokens = tokens_of response\<rparr>))"

definition key_points_prompt :: "string \<Rightarrow> string" where
  "key_points_prompt transcript =
     ''Analyze the following conversation and identify the most important key points and highlights.'' @
     [CHR 0x0A] @ ''Focus on:'' @
     [CHR 0x0A] @ ''- Main topics discussed'' @
     [CHR 0x0A] @ ''- Important decisions or conclusions'' @
     [CHR 0x0A] @ ''- Notable quotes or statements'' @
     [CHR 0x0A] @ ''- Critical information shared'' @
     [CHR 0x0A, CHR 0x0A] @ ''Format as a bulleted list (5-10 key points).'' @
     [CHR 0x0A, CHR 0x0A] @ ''Transcript:'' @
     [CHR 0x0A] @ transcript @
     [CHR 0x0A, CHR 0x0A] @ ''Key Points:''"

text \<open>The parsing loop of \<open>extract_key_points\<close>; 8226 is the bullet character.\<close>

fun key_points_loop :: "pystr list \<Rightarrow> pystr list \<Rightarrow> pystr list" where
  "key_points_loop [] points = points"
| "key_points_loop (line # rest) points =
     (let line = py_strip line in
      if line \<noteq> [] \<and>
         (startswith line (ascii ''-'') \<or> startswith line (ascii ''*'') \<or> startswith line [8226])
      then key_points_loop rest (points @ [line])
      else key_points_loop rest points)"

definition extract_key_points :: "env \<Rightarrow> nat \<Rightarrow> string \<Rightarrow> exn + analysis_result" where
  "extract_key_points e i transcript =
     (let start_time = time_time e i in
      case generate_content e (key_points_prompt transcript) of
        Inl exc \<Rightarrow> Inl exc
      | Inr response \<Rightarrow>
          (let processing_time = time_time e (i + 1) - start_time;
               key_points_text = gr_text response;
               points = key_points_loop (py_split key_points_text 10) []
           in Inr \<lparr>ar_data = PointsData points (length points),
                   ar_text = key_points_text,
                   ar_time = processing_time,
                   ar_tokens = tokens_of response\<rparr>))"

definition sentiment_prompt :: "string \<Rightarrow> string" where
  "sentiment_prompt transcript =
     ''Analyze the sentiment and tone of the following conversation.'' @
     [CHR 0x0A] @ ''Provide:'' @
     [CHR 0x0A] @ ''- Overall sentiment (positive/neutral/negative)'' @
     [CHR 0x0A] @ ''- Tone characteristics (professional, casual, tense, collaborative, etc.)'' @
     [CHR 0x0A] @ ''- Emotional indicators'' @
     [CHR 0x0A] @ ''- Notable shifts in sentiment or tone'' @
     [CHR 0x0A, CHR 0x0A] @ ''Transcript:'' @
     [CHR 0x0A] @ transcript @
     [CHR 0x0A, CHR 0x0A] @ ''Sentiment Analysis:''"

definition analyze_sentiment :: "env \<Rightarrow> nat \<Rightarrow> string \<Rightarrow> exn + analysis_result" where
  "analyze_sentiment e i transcript =
     (let start_time = time_time e i in
      case generate_content e (sentiment_prompt transcript) of
        Inl exc \<Rightarrow> Inl exc
      | Inr response \<Rightarrow>
          (let processing_time = time_time e (i + 1) - start_time;
               sentiment_text = gr_text response
           in Inr \<lparr>ar_data = SentimentData sentiment_text,
                   ar_text = sentiment_text,
                   ar_time = processing_time,
                   ar_tokens = tokens_of response\<rparr>))"

fun join_lines :: "string list \<Rightarrow> string" where
  "join_lines [] = []"
| "join_lines [l] = l"
| "join_lines (l # ls) = l @ [CHR 0x0A] @ join_lines ls"

text \<open>
  \<open>transcription.segments.all()\<close> comes in the model's default ordering, by start time;
  segments with equal start times keep their order of insertion here.
\<close>

definition format_transcript_with_speakers :: "transcription \<Rightarrow> world \<Rightarrow> string" where
  "format_transcript_with_speakers transcription w =
     (let segs = sort_key seg_start_time_seconds
                   (filter (\<lambda>s. seg_transcription s = tr_id transcription) (segments w));
          formatted_lines =
            map (\<lambda>segment.
                   (if seg_speaker_label segment \<noteq> [] then seg_speaker_label segment
                    else ''Unknown Speaker'') @ '': '' @ seg_text segment) segs
      in join_lines formatted_lines)"

section \<open>Tasks\<close>

subsection \<open>The orchestrator\<close>

definition pipeline_chain :: "string \<Rightarrow> (stage \<times> string) list" where
  "pipeline_chain recording_id =
     [(Convert, recording_id), (ExtractAudio, recording_id),
      (Transcribe, recording_id), (Analyze, recording_id)]"

text \<open>\<open>chain(...).apply_async()\<close>: one message, the first task carrying the rest of the chain.\<close>

definition apply_async :: "env \<Rightarrow> (stage \<times> string) list \<Rightarrow> world \<Rightarrow> exn + world" where
  "apply_async e workflow w =
     (case broker_fault e of
        Some exc \<Rightarrow> Inl exc
      | None \<Rightarrow>
          (case workflow of
             [] \<Rightarrow> Inr w
           | (task, arg) # rest \<Rightarrow> Inr (w\<lparr>queue := queue w @ [Message task arg rest]\<rparr>)))"

definition process_recording_pipeline :: "env \<Rightarrow> nat \<Rightarrow> string \<Rightarrow> world \<Rightarrow> string outcome \<times> world" where
  "process_recording_pipeline e retries recording_id w =
     (case Recording_get recording_id w of
        Inl exc \<Rightarrow> (self_retry 3 retries exc 60, w)
      | Inr recording \<Rightarrow>
          (let recording = recording\<lparr>rec_status := ''processing''\<rparr>;
               w1 = recording_save recording w
           in case ProcessingJob_create recording_id (request_id e) ''running'' (Some (now e 0)) w1 of
                Inl exc \<Rightarrow> (self_retry 3 retries exc 60, w1)
              | Inr (job, w2) \<Rightarrow>
                  (case apply_async e (pipeline_chain recording_id) w2 of
                     Inl exc \<Rightarrow> (self_retry 3 retries exc 60, w2)
                   | Inr w3 \<Rightarrow>
                       (Returned (''Processing pipeline started for '' @ recording_id), w3))))"

subsection \<open>What the stages share\<close>

text \<open>
  The first statements of the \<open>try\<close> block of the three media stages: the recording, its
  job, and the new step in status \<open>running\<close>.
\<close>

definition start_step ::
  "env \<Rightarrow> string \<Rightarrow> string \<Rightarrow> world \<Rightarrow>
   exn + recording \<times> processing_job \<times> processing_step \<times> world" where
  "start_step e name recording_id w =
     (case Recording_get recording_id w of
        Inl exc \<Rightarrow> Inl exc
      | Inr recording \<Rightarrow>
          (case processing_job_of recording_id w of
             Inl exc \<Rightarrow> Inl exc
           | Inr job \<Rightarrow>
               (case ProcessingStep_create (job_id job) name ''running'' (Some (now e 0)) w of
                  Inl exc \<Rightarrow> Inl exc
                | Inr (step, w1) \<Rightarrow> Inr (recording, job, step, w1))))"

text \<open>
  The \<open>except\<close> block of the three media stages. \<open>step\<close> is the local variable, \<open>None\<close>
  until the step has been created.
\<close>

definition stage_except ::
  "nat \<Rightarrow> nat \<Rightarrow> nat \<Rightarrow> processing_step option \<Rightarrow> exn \<Rightarrow> world \<Rightarrow> string outcome \<times> world" where
  "stage_except max_retries countdown retries step exc w =
     (let w1 = (case step of
                  None \<Rightarrow> w
                | Some s \<Rightarrow>
                    step_save (s\<lparr>step_status := ''failed'', step_error_message := str_exn exc\<rparr>) w)
      in (self_retry max_retries retries exc countdown, w1))"

text \<open>The update of the step on success; \<open>now e 1\<close> is the second reading of the clock.\<close>

definition complete_step :: "env \<Rightarrow> processing_step \<Rightarrow> processing_step" where
  "complete_step e step =
     (let completed_at = now e 1
      in step\<lparr>step_status := ''completed'',
              step_completed_at := Some completed_at,
              step_duration_seconds :=
                map_option (\<lambda>started_at. completed_at - started_at) (step_started_at step)\<rparr>)"

definition webm_path :: "string \<Rightarrow> string" where
  "webm_path recording_id = ''/tmp/'' @ recording_id @ ''_original.webm''"

definition mp4_path :: "string \<Rightarrow> string" where
  "mp4_path recording_id = ''/tmp/'' @ recording_id @ ''_converted.mp4''"

definition audio_path :: "string \<Rightarrow> string" where
  "audio_path recording_id = ''/tmp/'' @ recording_id @ ''_audio.wav''"

definition getsize :: "string \<Rightarrow> world \<Rightarrow> exn + nat" where
  "getsize path w =
     (case tmp w path of None \<Rightarrow> Inl (file_not_found path) | Some bytes \<Rightarrow> Inr (length bytes))"

subsection \<open>Video conversion\<close>

definition convert_command :: "string \<Rightarrow> string list" where
  "convert_command recording_id =
     [''ffmpeg'', ''-i'', webm_path recording_id, ''-c:v'', ''libx264'', ''-preset'', ''medium'',
      ''-crf'', ''23'', ''-c:a'', ''aac'', ''-b:a'', ''128k'', ''-y'', mp4_path recording_id]"

text \<open>The \<open>try\<close> block from the lookup of the WebM file to \<open>step.save()\<close>.\<close>

definition convert_main ::
  "settings \<Rightarrow> env \<Rightarrow> string \<Rightarrow> processing_step \<Rightarrow> world \<Rightarrow> (exn + processing_step) \<times> world" where
  "convert_main cfg e recording_id step w =
     (case files_get recording_id ''original_webm'' w of
        Inl exc \<Rightarrow> (Inl exc, w)
      | Inr webm_file \<Rightarrow>
     (case download_from_s3 e (rf_s3_key webm_file) (webm_path recording_id) w of
        Inl exc \<Rightarrow> (Inl exc, w)
      | Inr w1 \<Rightarrow>
     (case run_ffmpeg e (convert_command recording_id) (mp4_path recording_id) w1 of
        (Inl exc, w2) \<Rightarrow> (Inl exc, w2)
      | (Inr (rc, err), w2) \<Rightarrow>
     if rc \<noteq> 0 then (Inl (Exn ''Exception'' (''FFmpeg failed: '' @ err)), w2)
     else
     (let s3_key = ''recordings/'' @ recording_id @ ''/converted.mp4'' in
      case upload_to_s3 e (mp4_path recording_id) s3_key w2 of
        Inl exc \<Rightarrow> (Inl exc, w2)
      | Inr w3 \<Rightarrow>
     (case getsize (mp4_path recording_id) w3 of
        Inl exc \<Rightarrow> (Inl exc, w3)
      | Inr file_size \<Rightarrow>
     (case RecordingFile_create recording_id ''converted_mp4'' s3_key
             (AWS_STORAGE_BUCKET_NAME cfg) file_size w3 of
        Inl exc \<Rightarrow> (Inl exc, w3)
      | Inr w4 \<Rightarrow>
          (let step' = (complete_step e step)\<lparr>step_output_file := s3_key\<rparr>
           in (Inr step', step_save step' w4))))))))"

definition convert_webm_to_mp4 ::
  "settings \<Rightarrow> env \<Rightarrow> nat \<Rightarrow> string \<Rightarrow> world \<Rightarrow> string outcome \<times> world" where
  "convert_webm_to_mp4 cfg e retries recording_id w =
     (case start_step e ''video_conversion'' recording_id w of
        Inl exc \<Rightarrow> stage_except 2 120 retries None exc w
      | Inr (recording, job, step, w1) \<Rightarrow>
     (case convert_main cfg e recording_id step w1 of
        (Inl exc, w2) \<Rightarrow> stage_except 2 120 retries (Some step) exc w2
      | (Inr step', w2) \<Rightarrow>
     (case os_remove_all [webm_path recording_id, mp4_path recording_id] w2 of
        (Inl exc, w3) \<Rightarrow> stage_except 2 120 retries (Some step') exc w3
      | (Inr _, w3) \<Rightarrow> (Returned recording_id, w3))))"

subsection \<open>Audio extraction\<close>

definition extract_command :: "string \<Rightarrow> string list" where
  "extract_command recording_id =
     [''ffmpeg'', ''-i'', webm_path recording_id, ''-vn'', ''-acodec'', ''pcm_s16le'',
      ''-ar'', ''16000'', ''-ac'', ''1'', ''-y'', audio_path recording_id]"

definition extract_main ::
  "settings \<Rightarrow> env \<Rightarrow> string \<Rightarrow> processing_step \<Rightarrow> world \<Rightarrow> (exn + processing_step) \<times> world" where
  "extract_main cfg e recording_id step w =
     (case files_get recording_id ''original_webm'' w of
        Inl exc \<Rightarrow> (Inl exc, w)
      | Inr webm_file \<Rightarrow>
     (case download_from_s3 e (rf_s3_key webm_file) (webm_path recording_id) w of
        Inl exc \<Rightarrow> (Inl exc, w)
      | Inr w1 \<Rightarrow>
     (case run_ffmpeg e (extract_command recording_id) (audio_path recording_id) w1 of
        (Inl exc, w2) \<Rightarrow> (Inl exc, w2)
      | (Inr (rc, err), w2) \<Rightarrow>
     if rc \<noteq> 0 then (Inl (Exn ''Exception'' (''Audio extraction failed: '' @ err)), w2)
     else
     (let s3_key = ''recordings/'' @ recording_id @ ''/audio.wav'' in
      case upload_to_s3 e (audio_path recording_id) s3_key w2 of
        Inl exc \<Rightarrow> (Inl exc, w2)
      | Inr w3 \<Rightarrow>
     (case getsize (audio_path recording_id) w3 of
        Inl exc \<Rightarrow> (Inl exc, w3)
      | Inr file_size \<Rightarrow>
     (case RecordingFile_create recording_id ''audio_extract'' s3_key
             (AWS_STORAGE_BUCKET_NAME cfg) file_size w3 of
        Inl exc \<Rightarrow> (Inl exc, w3)
      | Inr w4 \<Rightarrow>
          (let step' = (complete_step e step)\<lparr>step_output_file := s3_key\<rparr>
           in (Inr step', step_save step' w4))))))))"

definition extract_audio_from_video ::
  "settings \<Rightarrow> env \<Rightarrow> nat \<Rightarrow> string \<Rightarrow> world \<Rightarrow> string outcome \<times> world" where
  "extract_audio_from_video cfg e retries recording_id w =
     (case start_step e ''audio_extraction'' recording_id w of
        Inl exc \<Rightarrow> stage_except 2 120 retries None exc w
      | Inr (recording, job, step, w1) \<Rightarrow>
     (case extract_main cfg e recording_id step w1 of
        (Inl exc, w2) \<Rightarrow> stage_except 2 120 retries (Some step) exc w2
      | (Inr step', w2) \<Rightarrow>
     (case os_remove_all [webm_path recording_id, audio_path recording_id] w2 of
        (Inl exc, w3) \<Rightarrow> stage_except 2 120 retries (Some step') exc w3
      | (Inr _, w3) \<Rightarrow> (Returned recording_id, w3))))"

subsection \<open>Speech to text\<close>

text \<open>\<open>Transcription.recording\<close> is one-to-one.\<close>

definition Transcription_create ::
  "string \<Rightarrow> string \<Rightarrow> real \<Rightarrow> string \<Rightarrow> nat \<Rightarrow> real \<Rightarrow> real \<Rightarrow> dg_response \<Rightarrow> world \<Rightarrow>
   exn + transcription \<times> world" where
  "Transcription_create recording_id full_text confidence_score language_detected num_speakers
       audio_duration_seconds processing_time_seconds deepgram_response w =
     (if \<exists>t \<in> set (transcriptions w). tr_recording t = recording_id
      then Inl (integrity_error ''analysis_transcription.recording_id'')
      else
        (let t = \<lparr>tr_id = next_id w, tr_recording = recording_id, tr_full_text = full_text,
                  tr_confidence_score = confidence_score,
                  tr_language_detected = language_detected, tr_num_speakers = num_speakers,
                  tr_audio_duration_seconds = audio_duration_seconds,
                  tr_processing_time_seconds = processing_time_seconds,
                  tr_deepgram_response = deepgram_response\<rparr>
         in Inr (t, w\<lparr>transcriptions := transcriptions w @ [t], next_id := Suc (next_id w)\<rparr>)))"

text \<open>\<open>len(set(u.speaker for u in result.utterances)) if result.utterances else 0\<close>.\<close>

definition count_speakers :: "utterance list option \<Rightarrow> nat" where
  "count_speakers utterances =
     (case utterances of
        None \<Rightarrow> 0
      | Some us \<Rightarrow> if us = [] then 0 else length (remdups (map u_speaker us)))"

definition segment_of :: "nat \<Rightarrow> nat \<Rightarrow> utterance \<Rightarrow> transcription_segment" where
  "segment_of new_id transcription_id u =
     \<lparr>seg_id = new_id, seg_transcription = transcription_id,
      seg_start_time_seconds = u_start u, seg_end_time_seconds = u_end u,
      seg_text = u_transcript u, seg_confidence_score = u_confidence u,
      seg_speaker_id = Some (u_speaker u),
      seg_speaker_label = ''Speaker '' @ str_int (u_speaker u),
      seg_words = (case u_words u of None \<Rightarrow> [] | Some ws \<Rightarrow> ws)\<rparr>"

text \<open>The loop over the utterances, one \<open>TranscriptionSegment.objects.create\<close> each.\<close>

fun create_segments :: "nat \<Rightarrow> utterance list \<Rightarrow> world \<Rightarrow> world" where
  "create_segments transcription_id [] w = w"
| "create_segments transcription_id (u # us) w =
     create_segments transcription_id us
       (w\<lparr>segments := segments w @ [segment_of (next_id w) transcription_id u],
          next_id := Suc (next_id w)\<rparr>)"

definition transcribe_main ::
  "settings \<Rightarrow> env \<Rightarrow> string \<Rightarrow> processing_step \<Rightarrow> world \<Rightarrow> (exn + processing_step) \<times> world" where
  "transcribe_main cfg e recording_id step w =
     (if DEEPGRAM_API_KEY cfg = [] then (Inl (Exn ''Exception'' ''DEEPGRAM_API_KEY not configured''), w)
      else
     (case files_get recording_id ''audio_extract'' w of
        Inl exc \<Rightarrow> (Inl exc, w)
      | Inr audio_file \<Rightarrow>
     (case download_from_s3 e (rf_s3_key audio_file) (audio_path recording_id) w of
        Inl exc \<Rightarrow> (Inl exc, w)
      | Inr w1 \<Rightarrow>
     (case tmp w1 (audio_path recording_id) of
        None \<Rightarrow> (Inl (file_not_found (audio_path recording_id)), w1)
      | Some buffer_data \<Rightarrow>
     (let start_time = time_time e 0 in
      case transcribe_file e buffer_data of
        Inl exc \<Rightarrow> (Inl exc, w1)
      | Inr response \<Rightarrow>
     (let processing_time = time_time e 1 - start_time in
      case Transcription_create recording_id (dg_transcript response) (dg_confidence response)
             (case dg_language response of Some l \<Rightarrow> l | None \<Rightarrow> ''en'')
             (count_speakers (dg_utterances response))
             (dg_duration response) processing_time response w1 of
        Inl exc \<Rightarrow> (Inl exc, w1)
      | Inr (transcription, w2) \<Rightarrow>
          (let w3 = (case dg_utterances response of
                       None \<Rightarrow> w2
                     | Some us \<Rightarrow> create_segments (tr_id transcription) us w2);
               step' = (complete_step e step)
                         \<lparr>step_metadata := [(''num_speakers'', tr_num_speakers transcription)]\<rparr>
           in (Inr step', step_save step' w3))))))))"

definition transcribe_audio ::
  "settings \<Rightarrow> env \<Rightarrow> nat \<Rightarrow> string \<Rightarrow> world \<Rightarrow> string outcome \<times> world" where
  "transcribe_audio cfg e retries recording_id w =
     (case start_step e ''speech_to_text'' recording_id w of
        Inl exc \<Rightarrow> stage_except 3 180 retries None exc w
      | Inr (recording, job, step, w1) \<Rightarrow>
     (case transcribe_main cfg e recording_id step w1 of
        (Inl exc, w2) \<Rightarrow> stage_except 3 180 retries (Some step) exc w2
      | (Inr step', w2) \<Rightarrow>
     (case os_remove_all [audio_path recording_id] w2 of
        (Inl exc, w3) \<Rightarrow> stage_except 3 180 retries (Some step') exc w3
      | (Inr _, w3) \<Rightarrow> (Returned recording_id, w3))))"

subsection \<open>AI analysis\<close>

text \<open>The analysis types of the model \<open>AIAnalysis\<close>.\<close>

definition ANALYSIS_TYPE_CHOICES :: "string list" where
  "ANALYSIS_TYPE_CHOICES = [''summary'', ''action_items'', ''key_points'', ''sentiment'']"

text \<open>\<open>unique_together = [['recording', 'analysis_type']]\<close>.\<close>

definition AIAnalysis_create :: "string \<Rightarrow> string \<Rightarrow> analysis_result \<Rightarrow> world \<Rightarrow> exn + world" where
  "AIAnalysis_create recording_id analysis_type result w =
     (if \<exists>a \<in> set (analyses w). an_recording a = recording_id \<and> an_analysis_type a = analysis_type
      then Inl (integrity_error ''analysis_aianalysis.recording_id, analysis_aianalysis.analysis_type'')
      else
        (let a = \<lparr>an_id = next_id w, an_recording = recording_id,
                  an_analysis_type = analysis_type, an_result_data = ar_data result,
                  an_result_text = ar_text result, an_model_version = ''gemini-1.5-flash'',
                  an_tokens_used = ar_tokens result,
                  an_processing_time_seconds = ar_time result\<rparr>
         in Inr (w\<lparr>analyses := analyses w @ [a], next_id := Suc (next_id w)\<rparr>)))"

text \<open>
  The \<open>except\<close> block of the analysis stage. It also writes the recording; when the
  exception came from the lookup of the recording itself, the local variable \<open>recording\<close>
  is unbound and the handler fails before it reaches \<open>self.retry\<close>.
\<close>

definition analyze_except ::
  "nat \<Rightarrow> processing_step option \<Rightarrow> recording option \<Rightarrow> exn \<Rightarrow> world \<Rightarrow> string outcome \<times> world" where
  "analyze_except retries step recording exc w =
     (let w1 = (case step of
                  None \<Rightarrow> w
                | Some s \<Rightarrow>
                    step_save (s\<lparr>step_status := ''failed'', step_error_message := str_exn exc\<rparr>) w)
      in case recording of
           None \<Rightarrow>
             (Raised (Exn ''UnboundLocalError''
                        ''cannot access local variable recording where it is not associated with a value''),
              w1)
         | Some r \<Rightarrow>
             (let w2 = recording_save
                         (r\<lparr>rec_status := ''failed'', rec_error_message := str_exn exc\<rparr>) w1
              in (self_retry 3 retries exc 180, w2)))"

text \<open>The \<open>try\<close> block after the creation of the step.\<close>

definition analyze_main ::
  "settings \<Rightarrow> (nat \<Rightarrow> bool) \<Rightarrow> env \<Rightarrow> string \<Rightarrow> recording \<Rightarrow> processing_job \<Rightarrow> transcription \<Rightarrow>
   processing_step \<Rightarrow> world \<Rightarrow> (exn + unit) \<times> world" where
  "analyze_main cfg ud e recording_id recording job transcription step w =
     (if GEMINI_API_KEY cfg = [] then (Inl (Exn ''Exception'' ''GEMINI_API_KEY not configured''), w)
      else
     (let formatted_transcript = format_transcript_with_speakers transcription w in
      case generate_summary e 0 formatted_transcript of
        Inl exc \<Rightarrow> (Inl exc, w)
      | Inr summary_result \<Rightarrow>
     (case AIAnalysis_create recording_id ''summary'' summary_result w of
        Inl exc \<Rightarrow> (Inl exc, w)
      | Inr w1 \<Rightarrow>
     (case extract_action_items ud e 2 formatted_transcript of
        Inl exc \<Rightarrow> (Inl exc, w1)
      | Inr action_items_result \<Rightarrow>
     (case AIAnalysis_create recording_id ''action_items'' action_items_result w1 of
        Inl exc \<Rightarrow> (Inl exc, w1)
      | Inr w2 \<Rightarrow>
     (case extract_key_points e 4 formatted_transcript of
        Inl exc \<Rightarrow> (Inl exc, w2)
      | Inr key_points_result \<Rightarrow>
     (case AIAnalysis_create recording_id ''key_points'' key_points_result w2 of
        Inl exc \<Rightarrow> (Inl exc, w2)
      | Inr w3 \<Rightarrow>
     (case analyze_sentiment e 6 formatted_transcript of
        Inl exc \<Rightarrow> (Inl exc, w3)
      | Inr sentiment_result \<Rightarrow>
     (case AIAnalysis_create recording_id ''sentiment'' sentiment_result w3 of
        Inl exc \<Rightarrow> (Inl exc, w3)
      | Inr w4 \<Rightarrow>
          (let w5 = step_save (complete_step e step) w4;
               w6 = recording_save
                      (recording\<lparr>rec_status := ''completed'',
                                 rec_completed_at := Some (now e 2)\<rparr>) w5;
               w7 = job_save
                      (job\<lparr>job_status := ''completed'', job_completed_at := Some (now e 3),
                           job_progress_percentage := 100\<rparr>) w6
           in (Inr (), w7)))))))))))"

definition analyze_transcription ::
  "settings \<Rightarrow> (nat \<Rightarrow> bool) \<Rightarrow> env \<Rightarrow> nat \<Rightarrow> string \<Rightarrow> world \<Rightarrow> string outcome \<times> world" where
  "analyze_transcription cfg ud e retries recording_id w =
     (case Recording_get recording_id w of
        Inl exc \<Rightarrow> analyze_except retries None None exc w
      | Inr recording \<Rightarrow>
     (case processing_job_of recording_id w of
        Inl exc \<Rightarrow> analyze_except retries None (Some recording) exc w
      | Inr job \<Rightarrow>
     (case transcription_of recording_id w of
        Inl exc \<Rightarrow> analyze_except retries None (Some recording) exc w
      | Inr transcription \<Rightarrow>
     (case ProcessingStep_create (job_id job) ''ai_analysis'' ''running'' (Some (now e 0)) w of
        Inl exc \<Rightarrow> analyze_except retries None (Some recording) exc w
      | Inr (step, w1) \<Rightarrow>
     (case analyze_main cfg ud e recording_id recording job transcription step w1 of
        (Inl exc, w2) \<Rightarrow> analyze_except retries (Some step) (Some recording) exc w2
      | (Inr _, w2) \<Rightarrow> (Returned recording_id, w2))))))"

subsection \<open>The worker\<close>

definition step_name_of :: "stage \<Rightarrow> string" where
  "step_name_of st =
     (case st of Convert \<Rightarrow> ''video_conversion'' | ExtractAudio \<Rightarrow> ''audio_extraction''
               | Transcribe \<Rightarrow> ''speech_to_text'' | Analyze \<Rightarrow> ''ai_analysis'')"

text \<open>The \<open>max_retries\<close> of each task's decorator.\<close>

definition max_retries_of :: "stage \<Rightarrow> nat" where
  "max_retries_of st =
     (case st of Convert \<Rightarrow> 2 | ExtractAudio \<Rightarrow> 2 | Transcribe \<Rightarrow> 3 | Analyze \<Rightarrow> 3)"

text \<open>The tasks as the worker calls them: the message's argument first, then the request.\<close>

definition stage_task ::
  "settings \<Rightarrow> (nat \<Rightarrow> bool) \<Rightarrow> stage \<Rightarrow> string \<Rightarrow> env \<Rightarrow> nat \<Rightarrow> world \<Rightarrow> string outcome \<times> world" where
  "stage_task cfg ud st recording_id e retries w =
     (case st of
        Convert \<Rightarrow> convert_webm_to_mp4 cfg e retries recording_id w
      | ExtractAudio \<Rightarrow> extract_audio_from_video cfg e retries recording_id w
      | Transcribe \<Rightarrow> transcribe_audio cfg e retries recording_id w
      | Analyze \<Rightarrow> analyze_transcription cfg ud e retries recording_id w)"

text \<open>
  A call of a stage task with the positional arguments of a message. Every stage is declared
  as \<open>def task(self, recording_id)\<close>: with any other number of arguments the call itself
  raises \<open>TypeError\<close>, before the \<open>try\<close> block of the task is entered, so that nothing
  is written and no retry is asked for.
\<close>

definition task_name :: "stage \<Rightarrow> string" where
  "task_name st =
     (case st of Convert \<Rightarrow> ''convert_webm_to_mp4'' | ExtractAudio \<Rightarrow> ''extract_audio_from_video''
               | Transcribe \<Rightarrow> ''transcribe_audio'' | Analyze \<Rightarrow> ''analyze_transcription'')"

definition type_error :: "stage \<Rightarrow> nat \<Rightarrow> exn" where
  "type_error st n =
     Exn ''TypeError''
       (if n = 0
        then task_name st @ ''() missing 1 required positional argument: '' @
             [CHR 0x27] @ ''recording_id'' @ [CHR 0x27]
        else task_name st @ ''() takes 2 positional arguments but '' @ str_nat (Suc n) @
             '' were given'')"

definition call_task ::
  "settings \<Rightarrow> (nat \<Rightarrow> bool) \<Rightarrow> stage \<Rightarrow> string list \<Rightarrow> env \<Rightarrow> nat \<Rightarrow> world \<Rightarrow>
   string outcome \<times> world" where
  "call_task cfg ud st args e retries w =
     (case args of
        [recording_id] \<Rightarrow> stage_task cfg ud st recording_id e retries w
      | _ \<Rightarrow> (Raised (type_error st (length args)), w))"

definition orchestrator_task :: "string \<Rightarrow> env \<Rightarrow> nat \<Rightarrow> world \<Rightarrow> string outcome \<times> world" where
  "orchestrator_task recording_id e retries w = process_recording_pipeline e retries recording_id w"

text \<open>
  The deliveries of one task message: the task runs with \<open>self.request.retries = retries\<close>
  in the environment \<open>envs retries\<close>; when it raises \<open>Retry\<close> it is delivered again with
  one retry more. \<open>self_retry\<close> never raises \<open>Retry\<close> once \<open>retries\<close> has reached
  \<open>max_retries\<close>, so the last branch only makes the bound explicit.
\<close>

function deliver ::
  "(env \<Rightarrow> nat \<Rightarrow> world \<Rightarrow> 'a outcome \<times> world) \<Rightarrow> nat \<Rightarrow> (nat \<Rightarrow> env) \<Rightarrow> nat \<Rightarrow> world \<Rightarrow>
   'a outcome \<times> world" where
  "deliver task max_retries envs retries w =
     (case task (envs retries) retries w of
        (Retry exc countdown, w') \<Rightarrow>
          if retries < max_retries then deliver task max_retries envs (Suc retries) w'
          else (Raised exc, w')
      | (Returned r, w') \<Rightarrow> (Returned r, w')
      | (Raised exc, w') \<Rightarrow> (Raised exc, w'))"
  by pat_completeness auto
termination
  by (relation "measure (\<lambda>(task, max_retries, envs, retries, w). max_retries - retries)") auto

declare deliver.simps [simp del]

text \<open>
  A chain on the worker. The orchestrator builds it from the signatures
  \<open>task.s(recording_id)\<close>, which are mutable: the worker calls each link after the first
  with the return value of the link before it in front of the signature's own argument.
  \<open>run_chain\<close> is the rest of a chain once the link before it has returned \<open>result\<close>. A
  link is delivered only after the link before it has returned; a link that ends in an
  exception ends the chain.
\<close>

fun run_chain ::
  "settings \<Rightarrow> (nat \<Rightarrow> bool) \<Rightarrow> (stage \<Rightarrow> nat \<Rightarrow> env) \<Rightarrow> (stage \<times> string) list \<Rightarrow>
   string \<Rightarrow> world \<Rightarrow> string outcome \<times> world" where
  "run_chain cfg ud envs [] result w = (Returned result, w)"
| "run_chain cfg ud envs ((st, arg) # rest) result w =
     (case deliver (call_task cfg ud st [result, arg]) (max_retries_of st) (envs st) 0 w of
        (Returned r, w') \<Rightarrow> run_chain cfg ud envs rest r w'
      | (Retry exc countdown, w') \<Rightarrow> (Retry exc countdown, w')
      | (Raised exc, w') \<Rightarrow> (Raised exc, w'))"


section \<open>Notions used in the properties\<close>

text \<open>
  The three media stages differ in their step name, their retry parameters, the work
  between the creation of the step and \<open>step.save()\<close>, and the files they remove at the
  end. \<open>media_stage\<close> is their common shape; each stage is shown to be an instance of it.
\<close>

definition media_stage ::
  "string \<Rightarrow> nat \<Rightarrow> nat \<Rightarrow> (processing_step \<Rightarrow> world \<Rightarrow> (exn + processing_step) \<times> world) \<Rightarrow>
   string list \<Rightarrow> env \<Rightarrow> nat \<Rightarrow> string \<Rightarrow> world \<Rightarrow> string outcome \<times> world" where
  "media_stage name max_retries countdown main paths e retries recording_id w =
     (case start_step e name recording_id w of
        Inl exc \<Rightarrow> stage_except max_retries countdown retries None exc w
      | Inr (recording, job, step, w1) \<Rightarrow>
     (case main step w1 of
        (Inl exc, w2) \<Rightarrow> stage_except max_retries countdown retries (Some step) exc w2
      | (Inr step', w2) \<Rightarrow>
     (case os_remove_all paths w2 of
        (Inl exc, w3) \<Rightarrow> stage_except max_retries countdown retries (Some step') exc w3
      | (Inr _, w3) \<Rightarrow> (Returned recording_id, w3))))"

text \<open>
  What the work of a media stage leaves alone: it writes no recording and no job, puts
  nothing on the queue, and touches the steps only by saving its own step, completed.
\<close>

definition keeps_tables ::
  "(processing_step \<Rightarrow> world \<Rightarrow> (exn + processing_step) \<times> world) \<Rightarrow> bool" where
  "keeps_tables main \<longleftrightarrow>
     (\<forall>step w1 res w2. main step w1 = (res, w2) \<longrightarrow>
        recordings w2 = recordings w1 \<and> jobs w2 = jobs w1 \<and> queue w2 = queue w1 \<and>
        analyses w2 = analyses w1 \<and> next_id w1 \<le> next_id w2 \<and>
        (case res of
           Inl exc \<Rightarrow> steps w2 = steps w1 \<and> transcriptions w2 = transcriptions w1 \<and>
                      segments w2 = segments w1
         | Inr s \<Rightarrow> steps w2 = save_row step_id s (steps w1) \<and> step_id s = step_id step \<and>
                    step_job s = step_job step \<and> step_name s = step_name step \<and>
                    step_status s = ''completed''))"

text \<open>The stage's retry delay, and the local files it writes.\<close>

definition countdown_of :: "stage \<Rightarrow> nat" where
  "countdown_of st =
     (case st of Convert \<Rightarrow> 120 | ExtractAudio \<Rightarrow> 120 | Transcribe \<Rightarrow> 180 | Analyze \<Rightarrow> 180)"


definition step_exists :: "nat \<Rightarrow> string \<Rightarrow> world \<Rightarrow> bool" where
  "step_exists job name w \<longleftrightarrow> (\<exists>s \<in> set (steps w). step_job s = job \<and> step_name s = name)"

definition step_columns :: string where
  "step_columns = ''processing_processingstep.job_id, processing_processingstep.step_name''"

text \<open>
  The exception the analysis stage meets before it has a step of its own, if any: no job,
  no transcription, or a step of this job and name already there.
\<close>

definition analyze_start_error :: "string \<Rightarrow> world \<Rightarrow> exn option" where
  "analyze_start_error recording_id w =
     (case processing_job_of recording_id w of
        Inl exc \<Rightarrow> Some exc
      | Inr job \<Rightarrow>
          (case transcription_of recording_id w of
             Inl exc \<Rightarrow> Some exc
           | Inr t \<Rightarrow>
               if step_exists (job_id job) ''ai_analysis'' w
               then Some (integrity_error step_columns) else None))"

text \<open>Primary keys are fresh: every id in use, and every job a step refers to, is below the counter.\<close>

definition ids_fresh :: "world \<Rightarrow> bool" where
  "ids_fresh w \<longleftrightarrow>
     list_all (\<lambda>j. job_id j < next_id w) (jobs w) \<and>
     list_all (\<lambda>s. step_id s < next_id w \<and> step_job s < next_id w) (steps w)"

text \<open>
  The configuration error or data error a stage meets once its step is created: the API key
  of its service is not set, or the recording has no file of the type the stage reads.
\<close>

definition config_or_data_error :: "settings \<Rightarrow> stage \<Rightarrow> string \<Rightarrow> world \<Rightarrow> exn option" where
  "config_or_data_error cfg st recording_id w =
     (case st of
        Convert \<Rightarrow>
          (case files_get recording_id ''original_webm'' w of Inl exc \<Rightarrow> Some exc | Inr f \<Rightarrow> None)
      | ExtractAudio \<Rightarrow>
          (case files_get recording_id ''original_webm'' w of Inl exc \<Rightarrow> Some exc | Inr f \<Rightarrow> None)
      | Transcribe \<Rightarrow>
          if DEEPGRAM_API_KEY cfg = [] then Some (Exn ''Exception'' ''DEEPGRAM_API_KEY not configured'')
          else (case files_get recording_id ''audio_extract'' w of
                  Inl exc \<Rightarrow> Some exc | Inr f \<Rightarrow> None)
      | Analyze \<Rightarrow>
          if GEMINI_API_KEY cfg = [] then Some (Exn ''Exception'' ''GEMINI_API_KEY not configured'')
          else None)"

section \<open>Example data\<close>

definition no_unicode_digit :: "nat \<Rightarrow> bool" where
  "no_unicode_digit c = False"

definition example_items_text :: pystr where
  "example_items_text =
     ascii ''1. Send the report to Dana (high)'' @ [10] @
     ascii ''Here is what I found:'' @ [10] @
     ascii ''  2. Book the review room (low)'' @ [10] @
     ascii ''3. Call the vendor'' @ [10] @
     ascii ''Let me know if anything is missing.''"

definition example_env :: env where
  "example_env =
     \<lparr>now = (\<lambda>i. 1000 + real i), time_time = (\<lambda>i. 2000 + real i), request_id = ''task-1'',
      download_fault = None, upload_fault = None, broker_fault = None,
      subprocess_run = (\<lambda>command. Completed 0 [] (Some ''out-bytes'')),
      transcribe_file = (\<lambda>payload. Inl (Exn ''Exception'' ''unused'')),
      generate_content =
        (\<lambda>prompt. Inr \<lparr>gr_text = example_items_text, gr_total_token_count = Some 42\<rparr>)\<rparr>"

definition every_time :: "env \<Rightarrow> nat \<Rightarrow> env" where
  "every_time e retries = e"

definition broker_down_env :: env where
  "broker_down_env = example_env\<lparr>broker_fault := Some (Exn ''OperationalError'' ''Connection refused'')\<rparr>"

definition example_recording :: recording where
  "example_recording =
     \<lparr>rec_id = ''r1'', rec_status = ''uploaded'', rec_error_message = [], rec_completed_at = None\<rparr>"

definition example_webm :: recording_file where
  "example_webm =
     \<lparr>rf_id = 0, rf_recording = ''r1'', rf_file_type = ''original_webm'',
      rf_s3_key = ''recordings/r1/meeting.webm'', rf_s3_bucket = ''media'',
      rf_file_size_bytes = 10\<rparr>"

text \<open>A recording whose upload has just been completed.\<close>

definition uploaded_world :: world where
  "uploaded_world =
     \<lparr>recordings = [example_recording], recording_files = [example_webm], jobs = [], steps = [],
      transcriptions = [], segments = [], analyses = [], next_id = 1,
      bucket = [''recordings/r1/meeting.webm'' \<mapsto> ''webm-bytes''], tmp = Map.empty, queue = []\<rparr>"

definition example_job :: processing_job where
  "example_job =
     \<lparr>job_id = 1, job_recording = ''r1'', job_status = ''running'', job_current_step = [],
      job_progress_percentage = 0, job_celery_task_id = ''task-1'', job_error_message = [],
      job_retry_count = 0, job_max_retries = 3, job_started_at = Some 1000,
      job_completed_at = None\<rparr>"

definition example_step :: "nat \<Rightarrow> string \<Rightarrow> string \<Rightarrow> processing_step" where
  "example_step i name status =
     \<lparr>step_id = i, step_job = 1, step_name = name, step_status = status, step_input_file = [],
      step_output_file = [], step_started_at = Some 1000, step_completed_at = None,
      step_duration_seconds = None, step_error_message = [], step_error_traceback = [],
      step_metadata = []\<rparr>"

text \<open>
  A pipeline that stopped in its second stage: the conversion is completed, the extraction
  has failed.
\<close>

definition stopped_world :: world where
  "stopped_world =
     uploaded_world
       \<lparr>jobs := [example_job],
        steps := [example_step 2 ''video_conversion'' ''completed'',
                  example_step 4 ''audio_extraction'' ''failed''],
        next_id := 5\<rparr>"

definition example_settings :: settings where
  "example_settings =
     \<lparr>AWS_STORAGE_BUCKET_NAME = ''media'', DEEPGRAM_API_KEY = ''dg-key'', GEMINI_API_KEY = ''gm-key''\<rparr>"

definition example_utterance :: "int \<Rightarrow> real \<Rightarrow> string \<Rightarrow> utterance" where
  "example_utterance speaker start_time transcript =
     \<lparr>u_start = start_time, u_end = start_time + 2, u_transcript = transcript, u_confidence = 1,
      u_speaker = speaker, u_words = None\<rparr>"

definition two_speaker_response :: dg_response where
  "two_speaker_response =
     \<lparr>dg_transcript = ''hello hi'', dg_confidence = 1,
      dg_utterances = Some [example_utterance 0 0 ''hello'', example_utterance 1 2 ''hi''],
      dg_language = Some ''en'', dg_duration = 4\<rparr>"

definition transcribe_env :: env where
  "transcribe_env = example_env\<lparr>transcribe_file := (\<lambda>payload. Inr two_speaker_response)\<rparr>"

definition example_audio :: recording_file where
  "example_audio =
     \<lparr>rf_id = 5, rf_recording = ''r1'', rf_file_type = ''audio_extract'',
      rf_s3_key = ''recordings/r1/audio.wav'', rf_s3_bucket = ''media'',
      rf_file_size_bytes = 9\<rparr>"

text \<open>A pipeline whose first two stages are completed.\<close>

definition extracted_world :: world where
  "extracted_world =
     \<lparr>recordings = [example_recording\<lparr>rec_status := ''processing''\<rparr>],
      recording_files = [example_webm, example_audio], jobs = [example_job],
      steps = [example_step 2 ''video_conversion'' ''completed'',
               example_step 4 ''audio_extraction'' ''completed''],
      transcriptions = [], segments = [], analyses = [], next_id = 6,
      bucket = [''recordings/r1/meeting.webm'' \<mapsto> ''webm-bytes'',
                ''recordings/r1/audio.wav'' \<mapsto> ''wav-bytes''],
      tmp = Map.empty, queue = []\<rparr>"

text \<open>The recording after the orchestrator has run: in processing, with its job.\<close>

definition started_world :: world where
  "started_world =
     uploaded_world
       \<lparr>recordings := [example_recording\<lparr>rec_status := ''processing''\<rparr>],
        jobs := [example_job], next_id := 2\<rparr>"

definition ffmpeg_fails_env :: env where
  "ffmpeg_fails_env =
     example_env\<lparr>subprocess_run :=
       (\<lambda>command. Completed 1 ''Invalid data found when processing input'' None)\<rparr>"

definition gemini_down_env :: env where
  "gemini_down_env =
     example_env\<lparr>generate_content :=
       (\<lambda>prompt. Inl (Exn ''ServiceUnavailable'' ''503 The model is overloaded''))\<rparr>"

definition example_transcription :: transcription where
  "example_transcription =
     \<lparr>tr_id = 7, tr_recording = ''r1'', tr_full_text = ''hello hi'', tr_confidence_score = 1,
      tr_language_detected = ''en'', tr_num_speakers = 2, tr_audio_duration_seconds = 4,
      tr_processing_time_seconds = 1, tr_deepgram_response = two_speaker_response\<rparr>"

text \<open>A pipeline whose first three stages are completed.\<close>

definition transcribed_world :: world where
  "transcribed_world =
     extracted_world
       \<lparr>steps := steps extracted_world @ [example_step 6 ''speech_to_text'' ''completed''],
        transcriptions := [example_transcription],
        segments := [segment_of 8 7 (example_utterance 0 0 ''hello''),
                     segment_of 9 7 (example_utterance 1 2 ''hi'')],
        next_id := 10\<rparr>"

definition no_keys_settings :: settings where
  "no_keys_settings = example_settings\<lparr>DEEPGRAM_API_KEY := [], GEMINI_API_KEY := []\<rparr>"

text \<open>A started pipeline whose recording has lost the reference to its upload.\<close>

definition no_file_world :: world where
  "no_file_world = started_world\<lparr>recording_files := []\<rparr>"

text \<open>The broker is down for the first delivery of a task, and up for every later one.\<close>

definition broker_down_once :: "nat \<Rightarrow> env" where
  "broker_down_once retries = (if retries = 0 then broker_down_env else example_env)"

text \<open>A recording whose pipeline is over: its job is completed.\<close>

definition finished_world :: world where
  "finished_world =
     transcribed_world
       \<lparr>recordings := [example_recording\<lparr>rec_status := ''completed'',
                                         rec_completed_at := Some 1002\<rparr>],
        jobs := [example_job\<lparr>job_status := ''completed'', job_progress_percentage := 100,
                             job_completed_at := Some 1003\<rparr>],
        steps := steps transcribed_world @ [example_step 10 ''ai_analysis'' ''completed''],
        next_id := 15\<rparr>"


section \<open>Properties\<close>

subsection \<open>Database operations\<close>

lemma objects_get_Inr: "objects_get m rows = Inr x \<longleftrightarrow> rows = [x]"
  by (auto simp: objects_get_def split: list.splits)

lemma related_object_Inr: "related_object m rows = Inr x \<longleftrightarrow> rows = [x]"
  by (auto simp: related_object_def split: list.splits)

lemma filter_save_row_unique:
  assumes "filter (\<lambda>y. pk y = k) rows = [x]" "pk x' = k"
  shows "filter (\<lambda>y. pk y = k) (save_row pk x' rows) = [x']"
  using assms
  by (induction rows) (auto simp: save_row_def filter_empty_conv split: if_splits)

lemma Recording_get_save:
  "Recording_get rid w = Inr r \<Longrightarrow> rec_id r' = rid \<Longrightarrow>
   Recording_get rid (recording_save r' w) = Inr r'"
  by (simp add: Recording_get_def objects_get_Inr recording_save_def filter_save_row_unique)

lemma Recording_get_id: "Recording_get rid w = Inr r \<Longrightarrow> rec_id r = rid"
  by (auto simp: Recording_get_def objects_get_Inr filter_eq_Cons_iff)

subsection \<open>The stages, step by step\<close>

lemma self_retry_not_Returned [simp]: "self_retry m k exc c \<noteq> Returned r"
  by (simp add: self_retry_def)

lemma stage_except_not_Returned [simp]: "stage_except m c k step exc w \<noteq> (Returned r, w')"
  by (simp add: stage_except_def Let_def)

lemma analyze_except_not_Returned [simp]: "analyze_except k step recording exc w \<noteq> (Returned r, w')"
  by (simp add: analyze_except_def Let_def split: option.splits)

lemma create_segments_fields:
  "segments (create_segments tid us w) =
     segments w @ map (\<lambda>(i, u). segment_of i tid u) (enumerate (next_id w) us)"
  "transcriptions (create_segments tid us w) = transcriptions w"
  "steps (create_segments tid us w) = steps w"
  "jobs (create_segments tid us w) = jobs w"
  "recordings (create_segments tid us w) = recordings w"
  "recording_files (create_segments tid us w) = recording_files w"
  "analyses (create_segments tid us w) = analyses w"
  "tmp (create_segments tid us w) = tmp w"
  "bucket (create_segments tid us w) = bucket w"
  "queue (create_segments tid us w) = queue w"
  "next_id (create_segments tid us w) = next_id w + length us"
  by (induction us arbitrary: w) simp_all


lemma start_step_Inr:
  assumes "start_step e name rid w = Inr (recording, job, step, w1)"
  shows "Recording_get rid w = Inr recording \<and> processing_job_of rid w = Inr job \<and>
    ProcessingStep_create (job_id job) name ''running'' (Some (now e 0)) w = Inr (step, w1)"
  using assms
  by (simp add: start_step_def split: sum.splits)



lemma os_remove_all_tables:
  assumes "os_remove_all paths w = (res, w')"
  shows "recordings w' = recordings w \<and> recording_files w' = recording_files w \<and>
         jobs w' = jobs w \<and> steps w' = steps w \<and> transcriptions w' = transcriptions w \<and>
         segments w' = segments w \<and> analyses w' = analyses w \<and> next_id w' = next_id w \<and>
         bucket w' = bucket w \<and> queue w' = queue w"
  using assms
  by (induction paths arbitrary: w) (auto split: option.split_asm)


lemma Transcription_create_Inr:
  assumes "Transcription_create rid ft cs lang n dur pt resp w = Inr (t, w')"
  shows "(\<forall>x \<in> set (transcriptions w). tr_recording x \<noteq> rid) \<and>
         tr_id t = next_id w \<and> tr_recording t = rid \<and> tr_num_speakers t = n \<and>
         tr_deepgram_response t = resp \<and>
         w' = w\<lparr>transcriptions := transcriptions w @ [t], next_id := Suc (next_id w)\<rparr>"
  using assms
  by (auto simp: Transcription_create_def Let_def split: if_split_asm)

lemma download_from_s3_Inr:
  assumes "download_from_s3 e key path w = Inr w'"
  shows "\<exists>bytes. download_fault e = None \<and> bucket w key = Some bytes \<and>
           w' = w\<lparr>tmp := (tmp w)(path \<mapsto> bytes)\<rparr>"
  using assms
  by (auto simp: download_from_s3_def split: option.split_asm)

lemma ProcessingStep_create_Inr:
  assumes "ProcessingStep_create job name status started w = Inr (step, w')"
  shows "(\<forall>s \<in> set (steps w). \<not> (step_job s = job \<and> step_name s = name)) \<and>
         step_id step = next_id w \<and> step_job step = job \<and> step_name step = name \<and>
         step_status step = status \<and> step_started_at step = started \<and>
         w' = w\<lparr>steps := steps w @ [step], next_id := Suc (next_id w)\<rparr>"
  using assms
  by (auto simp: ProcessingStep_create_def Let_def split: if_split_asm)


lemma upload_to_s3_Inr:
  assumes "upload_to_s3 e path key w = Inr w'"
  shows "\<exists>bytes. tmp w path = Some bytes \<and> upload_fault e = None \<and>
           w' = w\<lparr>bucket := (bucket w)(key \<mapsto> bytes)\<rparr>"
  using assms by (auto simp: upload_to_s3_def split: option.split_asm)

lemma run_ffmpeg_world:
  assumes "run_ffmpeg e command path w = (res, w')"
  shows "\<exists>t. w' = w\<lparr>tmp := t\<rparr> \<and> (\<forall>p. p \<noteq> path \<longrightarrow> t p = tmp w p)"
proof (cases "wrote (subprocess_run e command)")
  case None
  with assms have "w' = w\<lparr>tmp := tmp w\<rparr>"
    by (auto simp: run_ffmpeg_def Let_def split: proc_result.split_asm)
  then show ?thesis by blast
next
  case (Some bytes)
  with assms have "w' = w\<lparr>tmp := (tmp w)(path \<mapsto> bytes)\<rparr>"
    by (auto simp: run_ffmpeg_def Let_def split: proc_result.split_asm)
  then show ?thesis by (intro exI [of _ "(tmp w)(path \<mapsto> bytes)"]) simp
qed

lemma RecordingFile_create_Inr:
  assumes "RecordingFile_create rid ft key b n w = Inr w'"
  shows "\<exists>f. w' = w\<lparr>recording_files := recording_files w @ [f], next_id := Suc (next_id w)\<rparr>"
  using assms by (auto simp: RecordingFile_create_def Let_def split: if_split_asm)






lemma AIAnalysis_create_Inr:
  assumes "AIAnalysis_create rid ty res w = Inr w'"
  shows "(\<forall>a \<in> set (analyses w). \<not> (an_recording a = rid \<and> an_analysis_type a = ty)) \<and>
         w' = w\<lparr>analyses := analyses w @
                  [\<lparr>an_id = next_id w, an_recording = rid, an_analysis_type = ty,
                    an_result_data = ar_data res, an_result_text = ar_text res,
                    an_model_version = ''gemini-1.5-flash'', an_tokens_used = ar_tokens res,
                    an_processing_time_seconds = ar_time res\<rparr>],
                next_id := Suc (next_id w)\<rparr>"
  using assms by (auto simp: AIAnalysis_create_def Let_def split: if_split_asm)

lemma analyze_main_frame:
  assumes "analyze_main cfg ud e rid recording job transcription step w1 = (Inl exc, w2)"
  shows "recordings w2 = recordings w1 \<and> jobs w2 = jobs w1 \<and> steps w2 = steps w1 \<and>
         transcriptions w2 = transcriptions w1 \<and> segments w2 = segments w1 \<and>
         queue w2 = queue w1 \<and> tmp w2 = tmp w1"
  using assms
  by (auto simp: analyze_main_def Let_def
      dest!: AIAnalysis_create_Inr
      split: sum.split_asm prod.split_asm if_split_asm)

lemma stage_except_eq:
  "stage_except m c k step exc w =
     (self_retry m k exc c,
      case step of None \<Rightarrow> w
      | Some s \<Rightarrow> w\<lparr>steps := save_row step_id
                           (s\<lparr>step_status := ''failed'', step_error_message := str_exn exc\<rparr>)
                           (steps w)\<rparr>)"
  by (simp add: stage_except_def Let_def step_save_def split: option.splits)


lemma media_stage_instances:
  "convert_webm_to_mp4 cfg e k rid w =
     media_stage ''video_conversion'' 2 120 (convert_main cfg e rid)
       [webm_path rid, mp4_path rid] e k rid w"
  "extract_audio_from_video cfg e k rid w =
     media_stage ''audio_extraction'' 2 120 (extract_main cfg e rid)
       [webm_path rid, audio_path rid] e k rid w"
  "transcribe_audio cfg e k rid w =
     media_stage ''speech_to_text'' 3 180 (transcribe_main cfg e rid) [audio_path rid] e k rid w"
  by (simp_all add: convert_webm_to_mp4_def extract_audio_from_video_def transcribe_audio_def
        media_stage_def)

lemma complete_step_fields:
  "step_id (complete_step e s) = step_id s" "step_job (complete_step e s) = step_job s"
  "step_name (complete_step e s) = step_name s" "step_status (complete_step e s) = ''completed''"
  by (simp_all add: complete_step_def Let_def)

lemma keeps_tables_mains:
  "keeps_tables (convert_main cfg e rid)"
  "keeps_tables (extract_main cfg e rid)"
  "keeps_tables (transcribe_main cfg e rid)"
proof -
  show "keeps_tables (convert_main cfg e rid)"
    unfolding keeps_tables_def
    by (auto simp: convert_main_def Let_def step_save_def complete_step_fields
      dest!: download_from_s3_Inr upload_to_s3_Inr RecordingFile_create_Inr run_ffmpeg_world
      split: sum.split_asm prod.split_asm if_split_asm)
  show "keeps_tables (extract_main cfg e rid)"
    unfolding keeps_tables_def
    by (auto simp: extract_main_def Let_def step_save_def complete_step_fields
      dest!: download_from_s3_Inr upload_to_s3_Inr RecordingFile_create_Inr run_ffmpeg_world
      split: sum.split_asm prod.split_asm if_split_asm)
  show "keeps_tables (transcribe_main cfg e rid)"
    unfolding keeps_tables_def
    by (auto simp: transcribe_main_def Let_def step_save_def create_segments_fields
        complete_step_fields
      dest!: download_from_s3_Inr Transcription_create_Inr
      split: sum.split_asm prod.split_asm if_split_asm option.splits)
qed


lemma save_row_mem: "y \<in> set (save_row pk y rows)"
  by (induction rows) (auto simp: save_row_def)

lemma save_row_other: "x \<in> set (save_row pk y rows) \<Longrightarrow> x = y \<or> x \<in> set rows"
  by (auto simp: save_row_def split: if_split_asm)

lemma save_row_last:
  assumes "\<forall>x \<in> set rows. pk x \<noteq> pk y" "pk y0 = pk y"
  shows "save_row pk y (rows @ [y0]) = rows @ [y]"
  using assms by (auto simp: save_row_def intro: map_idI)

lemma start_step_steps:
  assumes "start_step e name rid w = Inr (recording, job, step, w1)"
  shows "Recording_get rid w = Inr recording" "processing_job_of rid w = Inr job"
    "\<not> step_exists (job_id job) name w"
    "w1 = w\<lparr>steps := steps w @ [step], next_id := Suc (next_id w)\<rparr>"
    "step_id step = next_id w" "step_job step = job_id job" "step_name step = name"
proof -
  from start_step_Inr [OF assms] have
    a: "Recording_get rid w = Inr recording" "processing_job_of rid w = Inr job" and
    c: "ProcessingStep_create (job_id job) name ''running'' (Some (now e 0)) w = Inr (step, w1)"
    by simp_all
  from a show "Recording_get rid w = Inr recording" "processing_job_of rid w = Inr job" .
  from ProcessingStep_create_Inr [OF c] show
    "\<not> step_exists (job_id job) name w"
    "w1 = w\<lparr>steps := steps w @ [step], next_id := Suc (next_id w)\<rparr>"
    "step_id step = next_id w" "step_job step = job_id job" "step_name step = name"
    by (auto simp: step_exists_def)
qed

lemma keeps_tables_Inl:
  assumes "keeps_tables main" "main step w1 = (Inl exc, w2)"
  shows "recordings w2 = recordings w1" "jobs w2 = jobs w1" "queue w2 = queue w1"
    "analyses w2 = analyses w1" "steps w2 = steps w1" "transcriptions w2 = transcriptions w1"
    "segments w2 = segments w1" "next_id w1 \<le> next_id w2"
  using assms(1) [unfolded keeps_tables_def, rule_format, OF assms(2)] by simp_all

lemma keeps_tables_Inr:
  assumes "keeps_tables main" "main step w1 = (Inr s, w2)"
  shows "recordings w2 = recordings w1" "jobs w2 = jobs w1" "queue w2 = queue w1"
    "analyses w2 = analyses w1" "steps w2 = save_row step_id s (steps w1)"
    "step_id s = step_id step" "step_job s = step_job step" "step_name s = step_name step"
    "step_status s = ''completed''" "next_id w1 \<le> next_id w2"
  using assms(1) [unfolded keeps_tables_def, rule_format, OF assms(2)] by simp_all

lemma start_step_Inl:
  assumes "start_step e name rid w = Inl exc"
  shows "start_step e' name rid w = Inl exc"
  using assms
  by (auto simp: start_step_def ProcessingStep_create_def Let_def split: sum.splits if_split_asm)

lemma start_step_existing:
  assumes "Recording_get rid w = Inr recording" "processing_job_of rid w = Inr job"
    "step_exists (job_id job) name w"
  shows "start_step e name rid w = Inl (integrity_error step_columns)"
  using assms
  by (auto simp: start_step_def ProcessingStep_create_def step_exists_def step_columns_def)

lemma start_step_new:
  assumes "Recording_get rid w = Inr recording" "processing_job_of rid w = Inr job"
    "\<not> step_exists (job_id job) name w"
  shows "\<exists>step w1. start_step e name rid w = Inr (recording, job, step, w1)"
  using assms
  by (auto simp: start_step_def ProcessingStep_create_def step_exists_def Let_def)



lemma media_stage_start_fails:
  assumes "start_step e name rid w = Inl exc"
  shows "media_stage name m c main paths e' k rid w = (self_retry m k exc c, w)"
  using start_step_Inl [OF assms, of e']
  by (simp add: media_stage_def stage_except_eq)

lemma media_stage_frame:
  assumes kt: "keeps_tables main"
      and run: "media_stage name m c main paths e k rid w = (out, w')"
  shows "recordings w' = recordings w \<and> jobs w' = jobs w \<and> queue w' = queue w \<and>
         analyses w' = analyses w \<and>
         (\<forall>s \<in> set (steps w'). step_name s \<noteq> name \<longrightarrow> s \<in> set (steps w))"
proof (cases "start_step e name rid w")
  case (Inl exc)
  with run show ?thesis by (simp add: media_stage_def stage_except_eq)
next
  case (Inr x)
  then obtain recording job step w1 where
    st: "start_step e name rid w = Inr (recording, job, step, w1)" by (cases x) auto
  note S = start_step_steps [OF st]
  obtain res w2 where mn: "main step w1 = (res, w2)" by (cases "main step w1")
  show ?thesis
  proof (cases res)
    case (Inl exc)
    note K = keeps_tables_Inl [OF kt mn [unfolded Inl]]
    from run st mn Inl K S show ?thesis
      by (auto simp: media_stage_def stage_except_eq dest!: save_row_other)
  next
    case (Inr step')
    note K = keeps_tables_Inr [OF kt mn [unfolded Inr]]
    obtain r3 w3 where rm: "os_remove_all paths w2 = (r3, w3)" by (cases "os_remove_all paths w2")
    note T = os_remove_all_tables [OF rm]
    from run st mn Inr rm K S T show ?thesis
      by (cases r3) (auto simp: media_stage_def stage_except_eq dest!: save_row_other)
  qed
qed


lemma lookups_cong:
  "recordings v = recordings w \<Longrightarrow> Recording_get rid v = Recording_get rid w"
  "jobs v = jobs w \<Longrightarrow> processing_job_of rid v = processing_job_of rid w"
  "transcriptions v = transcriptions w \<Longrightarrow> transcription_of rid v = transcription_of rid w"
  "recording_files v = recording_files w \<Longrightarrow> files_get rid ft v = files_get rid ft w"
  by (simp_all add: Recording_get_def processing_job_of_def transcription_of_def files_get_def)


lemma analyze_except_Some:
  "analyze_except k step (Some r) exc w =
     (self_retry 3 k exc 180,
      recording_save (r\<lparr>rec_status := ''failed'', rec_error_message := str_exn exc\<rparr>)
        (case step of None \<Rightarrow> w
         | Some s \<Rightarrow> step_save (s\<lparr>step_status := ''failed'', step_error_message := str_exn exc\<rparr>) w))"
  by (simp add: analyze_except_def Let_def)

lemma analyze_start_fails:
  assumes "Recording_get rid w = Inr r" "analyze_start_error rid w = Some exc"
  shows "analyze_transcription cfg ud e k rid w =
           (self_retry 3 k exc 180,
            recording_save (r\<lparr>rec_status := ''failed'', rec_error_message := str_exn exc\<rparr>) w)"
  using assms
  by (auto simp: analyze_transcription_def analyze_start_error_def analyze_except_Some
        ProcessingStep_create_def step_exists_def step_columns_def
      split: sum.split_asm if_split_asm)




lemma save_fields:
  "recordings (step_save s w) = recordings w" "jobs (step_save s w) = jobs w"
  "transcriptions (step_save s w) = transcriptions w" "segments (step_save s w) = segments w"
  "analyses (step_save s w) = analyses w" "queue (step_save s w) = queue w"
  "tmp (step_save s w) = tmp w" "next_id (step_save s w) = next_id w"
  "steps (step_save s w) = save_row step_id s (steps w)"
  "jobs (recording_save r w) = jobs w" "steps (recording_save r w) = steps w"
  "transcriptions (recording_save r w) = transcriptions w"
  "segments (recording_save r w) = segments w" "analyses (recording_save r w) = analyses w"
  "queue (recording_save r w) = queue w" "tmp (recording_save r w) = tmp w"
  "next_id (recording_save r w) = next_id w"
  "recordings (recording_save r w) = save_row rec_id r (recordings w)"
  "recordings (job_save j w) = recordings w" "steps (job_save j w) = steps w"
  "transcriptions (job_save j w) = transcriptions w" "segments (job_save j w) = segments w"
  "analyses (job_save j w) = analyses w" "queue (job_save j w) = queue w"
  "tmp (job_save j w) = tmp w" "next_id (job_save j w) = next_id w"
  "jobs (job_save j w) = save_row job_id j (jobs w)"
  by (simp_all add: step_save_def recording_save_def job_save_def)

text \<open>A failed delivery of the analysis stage, for a recording that exists.\<close>

lemma analyze_failed:
  assumes rec: "Recording_get rid w = Inr r"
      and run: "analyze_transcription cfg ud e k rid w = (out, w')"
      and nr: "out \<noteq> Returned rid"
  shows "\<exists>exc. out = self_retry 3 k exc 180 \<and>
           Recording_get rid w' =
             Inr (r\<lparr>rec_status := ''failed'', rec_error_message := str_exn exc\<rparr>) \<and>
           jobs w' = jobs w \<and> transcriptions w' = transcriptions w \<and>
           segments w' = segments w \<and> queue w' = queue w \<and> tmp w' = tmp w \<and>
           (\<forall>s \<in> set (steps w'). step_name s \<noteq> ''ai_analysis'' \<longrightarrow> s \<in> set (steps w)) \<and>
           (case analyze_start_error rid w of
              Some x \<Rightarrow> exc = x \<and> steps w' = steps w \<and> analyses w' = analyses w
            | None \<Rightarrow>
                (\<exists>job s. processing_job_of rid w = Inr job \<and> s \<in> set (steps w') \<and>
                   step_job s = job_id job \<and> step_name s = ''ai_analysis'' \<and>
                   step_status s = ''failed'' \<and> step_error_message s = str_exn exc))"
proof -
  have id: "rec_id (r\<lparr>rec_status := ''failed'', rec_error_message := str_exn exc\<rparr>) = rid" for exc
    using Recording_get_id [OF rec] by simp
  show ?thesis
  proof (cases "analyze_start_error rid w")
    case (Some x)
    from analyze_start_fails [OF rec Some, of cfg ud e k] run
    have o: "out = self_retry 3 k x 180"
      and w: "w' = recording_save (r\<lparr>rec_status := ''failed'', rec_error_message := str_exn x\<rparr>) w"
      by simp_all
    from Recording_get_save [OF rec id [of x]] o w Some show ?thesis
      by (intro exI [of _ x]) (simp add: save_fields)
  next
    case None
    then obtain job t where j: "processing_job_of rid w = Inr job"
      and t: "transcription_of rid w = Inr t"
      and n: "\<not> step_exists (job_id job) ''ai_analysis'' w"
      by (auto simp: analyze_start_error_def split: sum.split_asm if_split_asm)
    from n obtain step w1 where
      c: "ProcessingStep_create (job_id job) ''ai_analysis'' ''running'' (Some (now e 0)) w =
            Inr (step, w1)"
      by (auto simp: ProcessingStep_create_def step_exists_def Let_def)
    note C = ProcessingStep_create_Inr [OF c]
    obtain res w2 where m: "analyze_main cfg ud e rid r job t step w1 = (res, w2)"
      by (cases "analyze_main cfg ud e rid r job t step w1")
    from run rec j t c m nr obtain exc where res: "res = Inl exc"
      by (cases res) (auto simp: analyze_transcription_def)
    note F = analyze_main_frame [OF m [unfolded res]]
    let ?f = "step\<lparr>step_status := ''failed'', step_error_message := str_exn exc\<rparr>"
    let ?v = "step_save ?f w2"
    from run rec j t c m res have
      o: "out = self_retry 3 k exc 180" and
      w: "w' = recording_save (r\<lparr>rec_status := ''failed'', rec_error_message := str_exn exc\<rparr>) ?v"
      by (simp_all add: analyze_transcription_def analyze_except_Some)
    have "Recording_get rid ?v = Inr r"
      using rec F C lookups_cong(1) [of ?v w rid] by (simp add: save_fields)
    from Recording_get_save [OF this id [of exc]] have
      g: "Recording_get rid w' =
            Inr (r\<lparr>rec_status := ''failed'', rec_error_message := str_exn exc\<rparr>)"
      by (simp add: w)
    have st: "steps w' = save_row step_id ?f (steps w @ [step])"
      using F C by (simp add: w save_fields)
    have mem: "?f \<in> set (steps w')" unfolding st by (rule save_row_mem)
    have oth: "\<forall>s \<in> set (steps w'). step_name s \<noteq> ''ai_analysis'' \<longrightarrow> s \<in> set (steps w)"
      using C unfolding st by (auto dest!: save_row_other)
    have fr: "jobs w' = jobs w" "transcriptions w' = transcriptions w" "segments w' = segments w"
      "queue w' = queue w" "tmp w' = tmp w"
      using F C by (simp_all add: w save_fields)
    have last: "\<exists>job s. processing_job_of rid w = Inr job \<and> s \<in> set (steps w') \<and>
                   step_job s = job_id job \<and> step_name s = ''ai_analysis'' \<and>
                   step_status s = ''failed'' \<and> step_error_message s = str_exn exc"
      using j mem C by (intro exI [of _ job] exI [of _ ?f]) simp
    from o g fr oth last None show ?thesis
      by (intro exI [of _ exc]) simp
  qed
qed

subsection \<open>Deliveries\<close>

text \<open>
  A task that fails with the same exception in every world of an invariant is delivered
  until its retries are used up and then raises that exception.
\<close>

lemma deliver_always_failing:
  assumes step: "\<And>k w. I w \<Longrightarrow> \<exists>w'. task (envs k) k w = (self_retry m k exc c, w') \<and> J w'"
      and sub: "\<And>w. J w \<Longrightarrow> I w"
      and "I w" and "k \<le> m"
  shows "\<exists>w'. deliver task m envs k w = (Raised exc, w') \<and> J w'"
  using assms(3,4)
proof (induction "m - k" arbitrary: k w)
  case 0
  then have km: "k = m" by simp
  from step [OF "0.prems"(1), of k] obtain w' where
    "task (envs k) k w = (self_retry m k exc c, w')" "J w'" by blast
  then show ?case using km by (subst deliver.simps) (simp add: self_retry_def)
next
  case (Suc n)
  then have lt: "k < m" by simp
  from step [OF Suc.prems(1), of k] obtain w' where
    t: "task (envs k) k w = (self_retry m k exc c, w')" and i: "J w'" by blast
  have "n = m - Suc k" using Suc.hyps(2) by simp
  from Suc.hyps(1) [OF this sub [OF i]] lt obtain w'' where
    "deliver task m envs (Suc k) w' = (Raised exc, w'')" "J w''" by auto
  then show ?case using t lt by (subst deliver.simps) (simp add: self_retry_def)
qed


lemma stage_task_media:
  "stage_task cfg ud Convert rid e k w =
     media_stage ''video_conversion'' 2 120 (convert_main cfg e rid)
       [webm_path rid, mp4_path rid] e k rid w"
  "stage_task cfg ud ExtractAudio rid e k w =
     media_stage ''audio_extraction'' 2 120 (extract_main cfg e rid)
       [webm_path rid, audio_path rid] e k rid w"
  "stage_task cfg ud Transcribe rid e k w =
     media_stage ''speech_to_text'' 3 180 (transcribe_main cfg e rid) [audio_path rid] e k rid w"
  "stage_task cfg ud Analyze rid e k w = analyze_transcription cfg ud e k rid w"
  by (simp_all add: stage_task_def media_stage_instances)





lemma media_stage_main_fails:
  assumes rec: "Recording_get rid w = Inr recording"
      and job: "processing_job_of rid w = Inr job"
      and new: "\<not> step_exists (job_id job) name w"
      and mn: "\<And>step. main step (w\<lparr>steps := steps w @ [step], next_id := Suc (next_id w)\<rparr>) =
                 (Inl exc, w\<lparr>steps := steps w @ [step], next_id := Suc (next_id w)\<rparr>)"
  shows "\<exists>w'. media_stage name m c main paths e k rid w = (self_retry m k exc c, w') \<and>
           (\<exists>s \<in> set (steps w'). step_job s = job_id job \<and> step_name s = name \<and>
              step_status s = ''failed'' \<and> step_error_message s = str_exn exc)"
proof -
  from start_step_new [OF rec job new] obtain step w1 where
    st: "start_step e name rid w = Inr (recording, job, step, w1)" by blast
  note S = start_step_steps [OF st]
  let ?f = "step\<lparr>step_status := ''failed'', step_error_message := str_exn exc\<rparr>"
  let ?w' = "w1\<lparr>steps := save_row step_id ?f (steps w1)\<rparr>"
  from mn [of step] S(4) have m1: "main step w1 = (Inl exc, w1)" by simp
  have run: "media_stage name m c main paths e k rid w = (self_retry m k exc c, ?w')"
    by (simp add: media_stage_def st m1 stage_except_eq)
  have "?f \<in> set (steps ?w')" by (simp add: save_row_mem)
  with S run show ?thesis
    by (intro exI [of _ ?w'] conjI bexI [of _ ?f]) simp_all
qed

lemma files_get_new_step [simp]:
  "files_get rid ft (w\<lparr>steps := x, next_id := y\<rparr>) = files_get rid ft w"
  by (simp add: files_get_def)





lemma run_chain_type_error:
  "run_chain cfg ud envs ((st, arg) # rest) result w = (Raised (type_error st 2), w)"
  by (simp add: deliver.simps call_task_def numeral_2_eq_2)


subsection \<open>The orchestrator\<close>

lemma pipeline_with_job:
  assumes rec: "Recording_get rid w = Inr r"
      and job: "\<exists>j \<in> set (jobs w). job_recording j = rid"
  shows "process_recording_pipeline e k rid w =
           (self_retry 3 k (integrity_error ''processing_processingjob.recording_id'') 60,
            recording_save (r\<lparr>rec_status := ''processing''\<rparr>) w)"
  using assms
  by (simp add: process_recording_pipeline_def Let_def ProcessingJob_create_def recording_save_def)

lemma redelivered_pipeline_from:
  assumes rec: "Recording_get rid w = Inr r"
      and job: "\<exists>j \<in> set (jobs w). job_recording j = rid"
      and n: "n \<le> 3"
  shows "\<exists>w'. deliver (orchestrator_task rid) 3 envs n w =
                (Raised (integrity_error ''processing_processingjob.recording_id''), w') \<and>
              queue w' = queue w \<and> steps w' = steps w \<and> jobs w' = jobs w \<and>
              Recording_get rid w' = Inr (r\<lparr>rec_status := ''processing''\<rparr>)"
proof -
  let ?r = "r\<lparr>rec_status := ''processing''\<rparr>"
  let ?F = "\<lambda>v. queue v = queue w \<and> steps v = steps w \<and> jobs v = jobs w"
  let ?I = "\<lambda>v. (Recording_get rid v = Inr r \<or> Recording_get rid v = Inr ?r) \<and> ?F v"
  let ?J = "\<lambda>v. Recording_get rid v = Inr ?r \<and> ?F v"
  have id: "rec_id ?r = rid"
    using Recording_get_id [OF rec] by simp
  have inv: "\<exists>v'. orchestrator_task rid (envs k) k v =
                    (self_retry 3 k (integrity_error ''processing_processingjob.recording_id'') 60, v') \<and>
                  ?J v'" if i: "?I v" for k v
  proof -
    from i have j: "\<exists>j \<in> set (jobs v). job_recording j = rid" using job by simp
    from i consider "Recording_get rid v = Inr r" | "Recording_get rid v = Inr ?r" by blast
    then show ?thesis
    proof cases
      case 1
      from Recording_get_save [OF 1 id] pipeline_with_job [OF 1 j, of "envs k" k] i
      show ?thesis by (auto simp: orchestrator_task_def recording_save_def)
    next
      case 2
      from Recording_get_save [OF 2 id] pipeline_with_job [OF 2 j, of "envs k" k] i
      show ?thesis by (auto simp: orchestrator_task_def recording_save_def)
    qed
  qed
  have "\<exists>w'. deliver (orchestrator_task rid) 3 envs n w =
                (Raised (integrity_error ''processing_processingjob.recording_id''), w') \<and> ?J w'"
  proof (rule deliver_always_failing [where I = ?I and J = ?J and c = 60])
    show "\<exists>v'. orchestrator_task rid (envs k) k v =
                 (self_retry 3 k (integrity_error ''processing_processingjob.recording_id'') 60, v') \<and>
               ?J v'" if "?I v" for k v
      using inv [OF that] .
    show "?I v" if "?J v" for v using that by simp
    show "?I w" using rec by simp
    show "n \<le> 3" by (rule n)
  qed
  then show ?thesis by blast
qed

lemma redelivered_pipeline_with_job:
  assumes rec: "Recording_get rid w = Inr r"
      and job: "\<exists>j \<in> set (jobs w). job_recording j = rid"
  shows "\<exists>w'. deliver (orchestrator_task rid) 3 envs 0 w =
                (Raised (integrity_error ''processing_processingjob.recording_id''), w') \<and>
              queue w' = queue w \<and> steps w' = steps w \<and> jobs w' = jobs w \<and>
              Recording_get rid w' = Inr (r\<lparr>rec_status := ''processing''\<rparr>)"
  by (rule redelivered_pipeline_from [OF rec job]) simp

lemma example_recording_found:
  "Recording_get ''r1'' uploaded_world = Inr example_recording"
  "Recording_get ''r1'' stopped_world = Inr example_recording"
  by (simp_all add: Recording_get_def objects_get_def uploaded_world_def stopped_world_def
        example_recording_def)

lemma pipeline_dispatch_fails:
  assumes rec: "Recording_get rid w = Inr r"
      and nojob: "\<forall>j \<in> set (jobs w). job_recording j \<noteq> rid"
      and fault: "broker_fault e = Some exc"
  shows "\<exists>job w'. process_recording_pipeline e k rid w = (self_retry 3 k exc 60, w') \<and>
           queue w' = queue w \<and> jobs w' = jobs w @ [job] \<and> job_recording job = rid \<and>
           job_status job = ''running'' \<and>
           Recording_get rid w' = Inr (r\<lparr>rec_status := ''processing''\<rparr>)"
proof -
  let ?r = "r\<lparr>rec_status := ''processing''\<rparr>"
  let ?w1 = "recording_save ?r w"
  have id: "rec_id ?r = rid" using Recording_get_id [OF rec] by simp
  have g1: "Recording_get rid ?w1 = Inr ?r" by (rule Recording_get_save [OF rec id])
  have j1: "jobs ?w1 = jobs w" "queue ?w1 = queue w" by (simp_all add: recording_save_def)
  show ?thesis
    using rec nojob g1 fault
    by (auto simp: process_recording_pipeline_def Let_def ProcessingJob_create_def j1
        apply_async_def Recording_get_def recording_save_def)
qed

text \<open>
  A dispatch that fails is not attempted again: the job is created before the dispatch, so
  every later delivery fails on the second job for the recording.
\<close>

lemma failed_dispatch_not_attempted_again:
  assumes rec: "Recording_get rid w = Inr r"
      and nojob: "\<forall>j \<in> set (jobs w). job_recording j \<noteq> rid"
      and fault: "broker_fault (envs 0) = Some exc"
  shows "\<exists>w'. deliver (orchestrator_task rid) 3 envs 0 w =
                (Raised (integrity_error ''processing_processingjob.recording_id''), w') \<and>
              queue w' = queue w"
proof -
  from pipeline_dispatch_fails [OF rec nojob fault, of 0] obtain job w1 where
    a: "process_recording_pipeline (envs 0) 0 rid w = (Retry exc 60, w1)" and
    q: "queue w1 = queue w" and j: "jobs w1 = jobs w @ [job]" "job_recording job = rid" and
    g: "Recording_get rid w1 = Inr (r\<lparr>rec_status := ''processing''\<rparr>)"
    by (auto simp: self_retry_def)
  from j have j1: "\<exists>j \<in> set (jobs w1). job_recording j = rid" by auto
  have d: "deliver (orchestrator_task rid) 3 envs 0 w =
             deliver (orchestrator_task rid) 3 envs (Suc 0) w1"
    by (simp add: deliver.simps [of _ 3 envs 0 w] orchestrator_task_def a)
  from redelivered_pipeline_from [OF g j1, of "Suc 0" envs] q show ?thesis
    unfolding d by auto
qed

text \<open>
  C5, as the code has it. For a recording that exists and has no job of any status, the
  orchestrator returns, having created the one job of the recording (status \<open>running\<close>,
  \<open>started_at\<close> the current time), set the recording to \<open>processing\<close> and put one
  message on the queue: the first stage, carrying the other three. When the dispatch fails,
  nothing is put on the queue, the job and the new status of the recording are already
  written, and the task asks for a retry after 60 seconds as long as it has been retried
  fewer than 3 times, and raises the error otherwise.
\<close>

theorem start_pipeline_creates_job_and_dispatches:
  assumes rec: "Recording_get rid w = Inr r"
      and nojob: "\<forall>j \<in> set (jobs w). job_recording j \<noteq> rid"
  shows "(broker_fault e = None \<longrightarrow>
            (\<exists>job w'. process_recording_pipeline e retries rid w =
                         (Returned (''Processing pipeline started for '' @ rid), w') \<and>
               jobs w' = jobs w @ [job] \<and>
               filter (\<lambda>j. job_recording j = rid) (jobs w') = [job] \<and>
               job_status job = ''running'' \<and> job_started_at job = Some (now e 0) \<and>
               Recording_get rid w' = Inr (r\<lparr>rec_status := ''processing''\<rparr>) \<and>
               queue w' = queue w @
                 [Message Convert rid [(ExtractAudio, rid), (Transcribe, rid), (Analyze, rid)]])) \<and>
         (\<forall>exc. broker_fault e = Some exc \<longrightarrow>
            (\<exists>job w'. process_recording_pipeline e retries rid w =
                         (if retries < 3 then Retry exc 60 else Raised exc, w') \<and>
               queue w' = queue w \<and> jobs w' = jobs w @ [job] \<and> job_recording job = rid \<and>
               job_status job = ''running'' \<and>
               Recording_get rid w' = Inr (r\<lparr>rec_status := ''processing''\<rparr>)))"
proof -
  let ?r = "r\<lparr>rec_status := ''processing''\<rparr>"
  let ?w1 = "recording_save ?r w"
  have id: "rec_id ?r = rid" using Recording_get_id [OF rec] by simp
  have g1: "Recording_get rid ?w1 = Inr ?r" by (rule Recording_get_save [OF rec id])
  have j1: "jobs ?w1 = jobs w" "queue ?w1 = queue w" by (simp_all add: recording_save_def)
  have nf: "filter (\<lambda>j. job_recording j = rid) (jobs w) = []"
    using nojob by (simp add: filter_empty_conv)
  show ?thesis
    using rec nojob g1
    by (auto simp: process_recording_pipeline_def Let_def ProcessingJob_create_def j1 nf
        apply_async_def pipeline_chain_def self_retry_def Recording_get_def recording_save_def)
qed

theorem start_pipeline_creates_job_and_dispatches_witness:
  "Recording_get ''r1'' uploaded_world = Inr example_recording \<and>
   jobs uploaded_world = [] \<and>
   broker_fault example_env = None \<and>
   (\<exists>job w'. process_recording_pipeline example_env 0 ''r1'' uploaded_world =
                (Returned ''Processing pipeline started for r1'', w') \<and>
      jobs w' = [job] \<and> job_status job = ''running'' \<and> job_started_at job = Some 1000 \<and>
      Recording_get ''r1'' w' = Inr (example_recording\<lparr>rec_status := ''processing''\<rparr>) \<and>
      queue w' = [Message Convert ''r1''
                    [(ExtractAudio, ''r1''), (Transcribe, ''r1''), (Analyze, ''r1'')]]) \<and>
   broker_fault broker_down_env = Some (Exn ''OperationalError'' ''Connection refused'') \<and>
   (\<exists>w'. process_recording_pipeline broker_down_env 0 ''r1'' uploaded_world =
            (Retry (Exn ''OperationalError'' ''Connection refused'') 60, w') \<and> queue w' = [])"
proof -
  have h1: "Recording_get ''r1'' uploaded_world = Inr example_recording"
    by (rule example_recording_found)
  have h2: "\<forall>j \<in> set (jobs uploaded_world). job_recording j \<noteq> ''r1''"
    by (simp add: uploaded_world_def)
  have e1: "broker_fault example_env = None" "now example_env 0 = 1000"
    by (simp_all add: example_env_def)
  have e2: "broker_fault broker_down_env = Some (Exn ''OperationalError'' ''Connection refused'')"
    by (simp add: broker_down_env_def)
  have q: "queue uploaded_world = []" "jobs uploaded_world = []"
    by (simp_all add: uploaded_world_def)
  from start_pipeline_creates_job_and_dispatches [OF h1 h2, of example_env 0]
    start_pipeline_creates_job_and_dispatches [OF h1 h2, of broker_down_env 0]
  show ?thesis
    unfolding e1 e2 q using h1 by simp blast
qed

text \<open>
  The claim as the specification states it fails twice. In \<open>finished_world\<close> the recording
  has no active job, its only job being completed, yet the orchestrator creates no job and
  dispatches nothing: the delivery fails on the second job for the recording. And from
  \<open>uploaded_world\<close>, when the broker is down for the first delivery only, the dispatch is
  not attempted again: every later delivery fails on the job the first one has created, the
  deliveries end in that error and the queue stays empty.
\<close>

theorem start_pipeline_counterexample:
  "Recording_get ''r1'' finished_world =
     Inr (example_recording\<lparr>rec_status := ''completed'', rec_completed_at := Some 1002\<rparr>) \<and>
   map job_status (jobs finished_world) = [''completed''] \<and>
   fst (process_recording_pipeline example_env 0 ''r1'' finished_world) =
     Retry (integrity_error ''processing_processingjob.recording_id'') 60 \<and>
   jobs (snd (process_recording_pipeline example_env 0 ''r1'' finished_world)) =
     jobs finished_world \<and>
   queue (snd (process_recording_pipeline example_env 0 ''r1'' finished_world)) = [] \<and>
   broker_fault (broker_down_once 0) = Some (Exn ''OperationalError'' ''Connection refused'') \<and>
   broker_fault (broker_down_once 1) = None \<and> broker_fault (broker_down_once 2) = None \<and>
   broker_fault (broker_down_once 3) = None \<and>
   fst (deliver (orchestrator_task ''r1'') 3 broker_down_once 0 uploaded_world) =
     Raised (integrity_error ''processing_processingjob.recording_id'') \<and>
   queue (snd (deliver (orchestrator_task ''r1'') 3 broker_down_once 0 uploaded_world)) = []"
proof -
  have a: "Recording_get ''r1'' finished_world =
             Inr (example_recording\<lparr>rec_status := ''completed'', rec_completed_at := Some 1002\<rparr>)"
    "map job_status (jobs finished_world) = [''completed'']"
    by (simp_all add: Recording_get_def objects_get_def finished_world_def example_recording_def
        example_job_def)
  have jr: "\<exists>j \<in> set (jobs finished_world). job_recording j = ''r1''"
    by (simp add: finished_world_def example_job_def)
  have b: "fst (process_recording_pipeline example_env 0 ''r1'' finished_world) =
             Retry (integrity_error ''processing_processingjob.recording_id'') 60"
    "jobs (snd (process_recording_pipeline example_env 0 ''r1'' finished_world)) =
       jobs finished_world"
    "queue (snd (process_recording_pipeline example_env 0 ''r1'' finished_world)) =
       queue finished_world"
    by (simp_all add: process_recording_pipeline_def a(1) Let_def ProcessingJob_create_def
        save_fields self_retry_def jr)
  have q: "queue finished_world = []" "queue uploaded_world = []"
    by (simp_all add: finished_world_def transcribed_world_def extracted_world_def
        uploaded_world_def)
  have f: "broker_fault (broker_down_once 0) = Some (Exn ''OperationalError'' ''Connection refused'')"
    "broker_fault (broker_down_once 1) = None" "broker_fault (broker_down_once 2) = None"
    "broker_fault (broker_down_once 3) = None"
    by (simp_all add: broker_down_once_def broker_down_env_def example_env_def)
  have n: "\<forall>j \<in> set (jobs uploaded_world). job_recording j \<noteq> ''r1''"
    by (simp add: uploaded_world_def)
  from failed_dispatch_not_attempted_again [where envs = broker_down_once,
      OF example_recording_found(1) n f(1)]
  show ?thesis using a b f q by auto
qed

text \<open>
  C3, as the code has it. For a recording that already has a job, as every recording whose
  pipeline failed has, dispatching the orchestrator again dispatches no stage and runs none:
  every delivery sets the recording to \<open>processing\<close> and fails on the second job for the
  recording; after three retries that error is raised. The queue, the steps and the job are
  as they were.
\<close>

theorem orchestrator_again_dispatches_nothing:
  assumes "Recording_get rid w = Inr r"
      and "\<exists>j \<in> set (jobs w). job_recording j = rid"
  shows "\<exists>w'. deliver (orchestrator_task rid) 3 envs 0 w =
                (Raised (integrity_error ''processing_processingjob.recording_id''), w') \<and>
              queue w' = queue w \<and> steps w' = steps w \<and> jobs w' = jobs w \<and>
              Recording_get rid w' = Inr (r\<lparr>rec_status := ''processing''\<rparr>)"
  using assms by (rule redelivered_pipeline_with_job)

theorem orchestrator_again_dispatches_nothing_witness:
  "Recording_get ''r1'' stopped_world = Inr example_recording \<and>
   (\<exists>j \<in> set (jobs stopped_world). job_recording j = ''r1'') \<and>
   (\<exists>w'. deliver (orchestrator_task ''r1'') 3 (every_time example_env) 0 stopped_world =
            (Raised (integrity_error ''processing_processingjob.recording_id''), w') \<and>
          queue w' = [] \<and> steps w' = steps stopped_world)"
proof -
  have h1: "Recording_get ''r1'' stopped_world = Inr example_recording"
    by (rule example_recording_found)
  have h2: "\<exists>j \<in> set (jobs stopped_world). job_recording j = ''r1''"
    by (simp add: stopped_world_def example_job_def)
  have q: "queue stopped_world = []"
    by (simp add: stopped_world_def uploaded_world_def)
  from orchestrator_again_dispatches_nothing [OF h1 h2, of "every_time example_env"]
  show ?thesis using h1 h2 q by auto
qed

text \<open>
  The claim as the specification states it fails: in \<open>stopped_world\<close> the conversion is
  completed and the extraction is the first incomplete stage, yet dispatching the
  orchestrator again ends in an exception and leaves the queue empty.
\<close>

theorem orchestrator_again_counterexample:
  "fst (deliver (orchestrator_task ''r1'') 3 (every_time example_env) 0 stopped_world) =
     Raised (integrity_error ''processing_processingjob.recording_id'') \<and>
   queue (snd (deliver (orchestrator_task ''r1'') 3 (every_time example_env) 0 stopped_world)) = []"
proof -
  have h1: "Recording_get ''r1'' stopped_world = Inr example_recording"
    by (rule example_recording_found)
  have h2: "\<exists>j \<in> set (jobs stopped_world). job_recording j = ''r1''"
    by (simp add: stopped_world_def example_job_def)
  have q: "queue stopped_world = []"
    by (simp add: stopped_world_def uploaded_world_def)
  from redelivered_pipeline_with_job [OF h1 h2, of "every_time example_env"]
  show ?thesis using q by auto
qed

subsection \<open>Failed deliveries and the recording\<close>

text \<open>
  C10. Every failed delivery of the analysis stage, also one that asks for a retry, has set
  the recording to \<open>failed\<close> with the error text when it ends; a failed delivery of one
  of the other three stages leaves the recording as it was.
\<close>

theorem failed_delivery_and_recording:
  assumes run: "stage_task cfg ud st rid e k w = (out, w')"
      and rec: "Recording_get rid w = Inr r"
      and failed: "out \<noteq> Returned rid"
  shows "(st = Analyze \<longrightarrow>
            (\<exists>exc. out = self_retry 3 k exc 180 \<and> (k < 3 \<longrightarrow> out = Retry exc 180) \<and>
               Recording_get rid w' =
                 Inr (r\<lparr>rec_status := ''failed'', rec_error_message := str_exn exc\<rparr>))) \<and>
         (st \<noteq> Analyze \<longrightarrow> Recording_get rid w' = Inr r)"
proof (cases st)
  case Analyze
  with run have "analyze_transcription cfg ud e k rid w = (out, w')"
    by (simp add: stage_task_def)
  from analyze_failed [OF rec this failed] obtain exc where
    "out = self_retry 3 k exc 180"
    "Recording_get rid w' = Inr (r\<lparr>rec_status := ''failed'', rec_error_message := str_exn exc\<rparr>)"
    by blast
  with Analyze show ?thesis
    by (intro conjI impI exI [of _ exc]) (simp_all add: self_retry_def)
next
  case Convert
  with run have "media_stage ''video_conversion'' 2 120 (convert_main cfg e rid)
      [webm_path rid, mp4_path rid] e k rid w = (out, w')"
    by (simp add: stage_task_def media_stage_instances)
  from media_stage_frame [OF keeps_tables_mains(1) this] rec lookups_cong(1) [of w' w rid]
  show ?thesis using Convert by simp
next
  case ExtractAudio
  with run have "media_stage ''audio_extraction'' 2 120 (extract_main cfg e rid)
      [webm_path rid, audio_path rid] e k rid w = (out, w')"
    by (simp add: stage_task_def media_stage_instances)
  from media_stage_frame [OF keeps_tables_mains(2) this] rec lookups_cong(1) [of w' w rid]
  show ?thesis using ExtractAudio by simp
next
  case Transcribe
  with run have "media_stage ''speech_to_text'' 3 180 (transcribe_main cfg e rid)
      [audio_path rid] e k rid w = (out, w')"
    by (simp add: stage_task_def media_stage_instances)
  from media_stage_frame [OF keeps_tables_mains(3) this] rec lookups_cong(1) [of w' w rid]
  show ?thesis using Transcribe by simp
qed

theorem failed_delivery_and_recording_witness:
  "Recording_get ''r1'' transcribed_world = Inr (example_recording\<lparr>rec_status := ''processing''\<rparr>) \<and>
   fst (stage_task example_settings no_unicode_digit Analyze ''r1'' gemini_down_env 0
          transcribed_world) =
     Retry (Exn ''ServiceUnavailable'' ''503 The model is overloaded'') 180 \<and>
   Recording_get ''r1''
     (snd (stage_task example_settings no_unicode_digit Analyze ''r1'' gemini_down_env 0
             transcribed_world)) =
     Inr (example_recording\<lparr>rec_status := ''failed'',
                            rec_error_message := ''503 The model is overloaded''\<rparr>) \<and>
   Recording_get ''r1'' started_world = Inr (example_recording\<lparr>rec_status := ''processing''\<rparr>) \<and>
   fst (stage_task example_settings no_unicode_digit Convert ''r1'' ffmpeg_fails_env 0
          started_world) =
     Retry (Exn ''Exception'' ''FFmpeg failed: Invalid data found when processing input'') 120 \<and>
   Recording_get ''r1''
     (snd (stage_task example_settings no_unicode_digit Convert ''r1'' ffmpeg_fails_env 0
             started_world)) =
     Inr (example_recording\<lparr>rec_status := ''processing''\<rparr>)"
proof -
  let ?a = "stage_task example_settings no_unicode_digit Analyze ''r1'' gemini_down_env 0
              transcribed_world"
  let ?c = "stage_task example_settings no_unicode_digit Convert ''r1'' ffmpeg_fails_env 0
              started_world"
  have r1: "Recording_get ''r1'' transcribed_world =
              Inr (example_recording\<lparr>rec_status := ''processing''\<rparr>)"
    by (simp add: Recording_get_def objects_get_def transcribed_world_def extracted_world_def
        example_recording_def)
  have r2: "Recording_get ''r1'' started_world =
              Inr (example_recording\<lparr>rec_status := ''processing''\<rparr>)"
    by (simp add: Recording_get_def objects_get_def started_world_def uploaded_world_def
        example_recording_def)
  have a: "fst ?a = Retry (Exn ''ServiceUnavailable'' ''503 The model is overloaded'') 180"
    by (simp add: stage_task_def analyze_transcription_def Recording_get_def objects_get_def
        processing_job_of_def transcription_of_def related_object_def ProcessingStep_create_def
        Let_def analyze_main_def analyze_except_def generate_summary_def self_retry_def
        transcribed_world_def extracted_world_def example_settings_def gemini_down_env_def
        example_env_def example_recording_def example_job_def example_step_def
        example_transcription_def)
  have c: "fst ?c =
             Retry (Exn ''Exception'' ''FFmpeg failed: Invalid data found when processing input'') 120"
    by (simp add: stage_task_def convert_webm_to_mp4_def start_step_def Recording_get_def
        objects_get_def processing_job_of_def related_object_def ProcessingStep_create_def
        Let_def stage_except_def convert_main_def files_get_def download_from_s3_def
        run_ffmpeg_def self_retry_def started_world_def uploaded_world_def
        ffmpeg_fails_env_def example_env_def example_recording_def example_webm_def
        example_job_def)
  have na: "fst ?a \<noteq> Returned ''r1''" and nc: "fst ?c \<noteq> Returned ''r1''"
    by (simp_all add: a c)
  have pa: "?a = (fst ?a, snd ?a)" and pc: "?c = (fst ?c, snd ?c)" by simp_all
  from failed_delivery_and_recording [OF pa r1 na] a
  have ra: "Recording_get ''r1'' (snd ?a) =
              Inr (example_recording\<lparr>rec_status := ''failed'',
                     rec_error_message := ''503 The model is overloaded''\<rparr>)"
    by (auto simp: self_retry_def)
  from failed_delivery_and_recording [OF pc r2 nc]
  have rc: "Recording_get ''r1'' (snd ?c) = Inr (example_recording\<lparr>rec_status := ''processing''\<rparr>)"
    by simp
  from r1 r2 a c ra rc show ?thesis by simp
qed

subsection \<open>Speakers and segments\<close>




subsection \<open>Scratch files\<close>














subsection \<open>Configuration and data errors\<close>

text \<open>
  C4, as the code has it. A stage whose step has been created and which then finds its API
  key unset, or finds no file of the type it reads, is not failed for good: as for every
  other exception, the step is marked \<open>failed\<close> with the error text and the task asks for
  a retry after the stage's delay; only when the retries are used up is the error raised.
\<close>

theorem config_or_data_error_is_retried:
  assumes rec: "Recording_get rid w = Inr recording"
      and job: "processing_job_of rid w = Inr job"
      and tr: "st = Analyze \<longrightarrow> (\<exists>t. transcription_of rid w = Inr t)"
      and new: "\<not> step_exists (job_id job) (step_name_of st) w"
      and err: "config_or_data_error cfg st rid w = Some exc"
  shows "\<exists>w'. stage_task cfg ud st rid e k w =
                (if k < max_retries_of st then Retry exc (countdown_of st) else Raised exc, w') \<and>
              (\<exists>s \<in> set (steps w'). step_job s = job_id job \<and> step_name s = step_name_of st \<and>
                 step_status s = ''failed'' \<and> step_error_message s = str_exn exc)"
proof (cases st)
  case Convert
  from err Convert have "convert_main cfg e rid step v = (Inl exc, v)"
    if "files_get rid ''original_webm'' v = files_get rid ''original_webm'' w" for step v
    using that by (auto simp: config_or_data_error_def convert_main_def split: sum.split_asm)
  then have "\<And>step. convert_main cfg e rid step (w\<lparr>steps := steps w @ [step], next_id := Suc (next_id w)\<rparr>) =
                 (Inl exc, w\<lparr>steps := steps w @ [step], next_id := Suc (next_id w)\<rparr>)"
    by simp
  from media_stage_main_fails [where main = "convert_main cfg e rid" and m = 2 and c = 120 and
      paths = "[webm_path rid, mp4_path rid]" and e = e and k = k,
    OF rec job new [unfolded Convert step_name_of_def, simplified] this]
  show ?thesis using Convert
    by (auto simp: stage_task_media step_name_of_def max_retries_of_def countdown_of_def
        self_retry_def less_Suc_eq_le not_less)
next
  case ExtractAudio
  from err ExtractAudio have "extract_main cfg e rid step v = (Inl exc, v)"
    if "files_get rid ''original_webm'' v = files_get rid ''original_webm'' w" for step v
    using that by (auto simp: config_or_data_error_def extract_main_def split: sum.split_asm)
  then have "\<And>step. extract_main cfg e rid step (w\<lparr>steps := steps w @ [step], next_id := Suc (next_id w)\<rparr>) =
                 (Inl exc, w\<lparr>steps := steps w @ [step], next_id := Suc (next_id w)\<rparr>)"
    by simp
  from media_stage_main_fails [where main = "extract_main cfg e rid" and m = 2 and c = 120 and
      paths = "[webm_path rid, audio_path rid]" and e = e and k = k,
    OF rec job new [unfolded ExtractAudio step_name_of_def, simplified] this]
  show ?thesis using ExtractAudio
    by (auto simp: stage_task_media step_name_of_def max_retries_of_def countdown_of_def
        self_retry_def less_Suc_eq_le not_less)
next
  case Transcribe
  from err Transcribe have "transcribe_main cfg e rid step v = (Inl exc, v)"
    if "files_get rid ''audio_extract'' v = files_get rid ''audio_extract'' w" for step v
    using that
    by (auto simp: config_or_data_error_def transcribe_main_def split: sum.split_asm if_split_asm)
  then have "\<And>step. transcribe_main cfg e rid step (w\<lparr>steps := steps w @ [step], next_id := Suc (next_id w)\<rparr>) =
                 (Inl exc, w\<lparr>steps := steps w @ [step], next_id := Suc (next_id w)\<rparr>)"
    by simp
  from media_stage_main_fails [where main = "transcribe_main cfg e rid" and m = 3 and c = 180 and
      paths = "[audio_path rid]" and e = e and k = k,
    OF rec job new [unfolded Transcribe step_name_of_def, simplified] this]
  show ?thesis using Transcribe
    by (auto simp: stage_task_media step_name_of_def max_retries_of_def countdown_of_def
        self_retry_def less_Suc_eq_le not_less)
next
  case Analyze
  with tr obtain t where t: "transcription_of rid w = Inr t" by blast
  from new Analyze have n: "\<not> step_exists (job_id job) ''ai_analysis'' w"
    by (simp add: step_name_of_def)
  then obtain step w1 where
    c: "ProcessingStep_create (job_id job) ''ai_analysis'' ''running'' (Some (now e 0)) w =
          Inr (step, w1)"
    by (auto simp: ProcessingStep_create_def step_exists_def Let_def)
  note C = ProcessingStep_create_Inr [OF c]
  from err Analyze have key: "GEMINI_API_KEY cfg = []"
    and exc: "exc = Exn ''Exception'' ''GEMINI_API_KEY not configured''"
    by (auto simp: config_or_data_error_def split: if_split_asm)
  let ?f = "step\<lparr>step_status := ''failed'', step_error_message := str_exn exc\<rparr>"
  let ?w' = "recording_save (recording\<lparr>rec_status := ''failed'', rec_error_message := str_exn exc\<rparr>)
               (step_save ?f w1)"
  have run: "analyze_transcription cfg ud e k rid w = (self_retry 3 k exc 180, ?w')"
    by (simp add: analyze_transcription_def rec job t c analyze_main_def key exc analyze_except_Some)
  have "?f \<in> set (steps ?w')" by (simp add: save_fields save_row_mem)
  with run C Analyze show ?thesis
    by (intro exI [of _ ?w'] conjI bexI [of _ ?f])
       (simp_all add: stage_task_media step_name_of_def max_retries_of_def countdown_of_def
          self_retry_def less_Suc_eq_le not_less)
qed


theorem config_or_data_error_is_retried_witness:
  "Recording_get ''r1'' extracted_world = Inr (example_recording\<lparr>rec_status := ''processing''\<rparr>) \<and>
   processing_job_of ''r1'' extracted_world = Inr example_job \<and>
   \<not> step_exists 1 ''speech_to_text'' extracted_world \<and>
   config_or_data_error no_keys_settings Transcribe ''r1'' extracted_world =
     Some (Exn ''Exception'' ''DEEPGRAM_API_KEY not configured'') \<and>
   (\<exists>w'. stage_task no_keys_settings no_unicode_digit Transcribe ''r1'' transcribe_env 0
            extracted_world =
            (Retry (Exn ''Exception'' ''DEEPGRAM_API_KEY not configured'') 180, w') \<and>
      (\<exists>s \<in> set (steps w'). step_name s = ''speech_to_text'' \<and> step_status s = ''failed'' \<and>
         step_error_message s = ''DEEPGRAM_API_KEY not configured'')) \<and>
   transcription_of ''r1'' transcribed_world = Inr example_transcription \<and>
   config_or_data_error no_keys_settings Analyze ''r1'' transcribed_world =
     Some (Exn ''Exception'' ''GEMINI_API_KEY not configured'') \<and>
   (\<exists>w'. stage_task no_keys_settings no_unicode_digit Analyze ''r1'' example_env 3
            transcribed_world =
            (Raised (Exn ''Exception'' ''GEMINI_API_KEY not configured''), w') \<and>
      (\<exists>s \<in> set (steps w'). step_name s = ''ai_analysis'' \<and> step_status s = ''failed'' \<and>
         step_error_message s = ''GEMINI_API_KEY not configured''))"
proof -
  have r1: "Recording_get ''r1'' extracted_world =
              Inr (example_recording\<lparr>rec_status := ''processing''\<rparr>)"
    and r2: "Recording_get ''r1'' transcribed_world =
              Inr (example_recording\<lparr>rec_status := ''processing''\<rparr>)"
    by (simp_all add: Recording_get_def objects_get_def transcribed_world_def extracted_world_def
        example_recording_def)
  have j1: "processing_job_of ''r1'' extracted_world = Inr example_job"
    and j2: "processing_job_of ''r1'' transcribed_world = Inr example_job"
    by (simp_all add: processing_job_of_def related_object_def transcribed_world_def
        extracted_world_def example_job_def)
  have t2: "transcription_of ''r1'' transcribed_world = Inr example_transcription"
    by (simp add: transcription_of_def related_object_def transcribed_world_def
        extracted_world_def example_transcription_def)
  have i: "job_id example_job = 1" by (simp add: example_job_def)
  have n1: "\<not> step_exists (job_id example_job) (step_name_of Transcribe) extracted_world"
    and n2: "\<not> step_exists (job_id example_job) (step_name_of Analyze) transcribed_world"
    by (simp_all add: step_exists_def step_name_of_def transcribed_world_def extracted_world_def
        example_step_def example_job_def)
  have e1: "config_or_data_error no_keys_settings Transcribe ''r1'' extracted_world =
              Some (Exn ''Exception'' ''DEEPGRAM_API_KEY not configured'')"
    and e2: "config_or_data_error no_keys_settings Analyze ''r1'' transcribed_world =
              Some (Exn ''Exception'' ''GEMINI_API_KEY not configured'')"
    by (simp_all add: config_or_data_error_def no_keys_settings_def example_settings_def)
  have tr1: "Transcribe = Analyze \<longrightarrow> (\<exists>t. transcription_of ''r1'' extracted_world = Inr t)"
    by simp
  have tr2: "Analyze = Analyze \<longrightarrow> (\<exists>t. transcription_of ''r1'' transcribed_world = Inr t)"
    using t2 by simp
  from config_or_data_error_is_retried [OF r1 j1 tr1 n1 e1, of no_unicode_digit transcribe_env 0]
    config_or_data_error_is_retried [OF r2 j2 tr2 n2 e2, of no_unicode_digit example_env 3]
    r1 j1 n1 e1 t2 e2
  show ?thesis
    by (simp add: i step_name_of_def max_retries_of_def countdown_of_def) blast
qed

text \<open>
  The claim as the specification states it fails: with no key for the speech-to-text
  service the first delivery of the transcription asks for a retry in 180 seconds, and a
  conversion that finds no uploaded file asks for one in 120 seconds.
\<close>

theorem config_or_data_error_counterexample:
  "fst (stage_task no_keys_settings no_unicode_digit Transcribe ''r1'' transcribe_env 0
          extracted_world) =
     Retry (Exn ''Exception'' ''DEEPGRAM_API_KEY not configured'') 180 \<and>
   fst (stage_task example_settings no_unicode_digit Convert ''r1'' example_env 0 no_file_world) =
     Retry (Exn ''DoesNotExist'' ''RecordingFile matching query does not exist.'') 120"
  by (simp add: stage_task_def transcribe_audio_def convert_webm_to_mp4_def start_step_def
      Recording_get_def objects_get_def processing_job_of_def related_object_def
      ProcessingStep_create_def Let_def stage_except_def transcribe_main_def convert_main_def
      files_get_def self_retry_def no_file_world_def started_world_def uploaded_world_def
      extracted_world_def no_keys_settings_def example_settings_def
      example_recording_def example_job_def example_step_def)

subsection \<open>Duplicate dispatch\<close>

text \<open>
  C1, as the code has it. When the step of a job and stage already exists and is completed,
  a further delivery of that stage calls no adapter (its result is the same in every
  environment) and creates no step, transcription, segment or analysis; but it does not
  return. The creation of the step is refused by the uniqueness of job and step name; only
  an analysis whose recording has no transcription fails one statement earlier, at the
  lookup of the transcription. The delivery asks for a retry with that exception, or raises
  it once the retries are used up. The job is left as it was; so is the recording by the
  three media stages, while the analysis saves it as \<open>failed\<close> with the error text.
\<close>

theorem duplicate_dispatch_creates_nothing:
  assumes rec: "Recording_get rid w = Inr recording"
      and job: "processing_job_of rid w = Inr job"
      and s: "s \<in> set (steps w)" "step_job s = job_id job" "step_name s = step_name_of st"
             "step_status s = ''completed''"
  shows "\<exists>exc w'. stage_task cfg ud st rid e k w =
                    (if k < max_retries_of st then Retry exc (countdown_of st) else Raised exc, w') \<and>
           exc = (if st = Analyze
                  then (case transcription_of rid w of
                          Inl no_transcription \<Rightarrow> no_transcription
                        | Inr t \<Rightarrow> integrity_error step_columns)
                  else integrity_error step_columns) \<and>
           steps w' = steps w \<and> transcriptions w' = transcriptions w \<and>
           segments w' = segments w \<and> analyses w' = analyses w \<and> jobs w' = jobs w \<and>
           recordings w' =
             (if st = Analyze
              then save_row rec_id (recording\<lparr>rec_status := ''failed'',
                                              rec_error_message := str_exn exc\<rparr>) (recordings w)
              else recordings w) \<and>
           stage_task cfg ud st rid e' k w = stage_task cfg ud st rid e k w"
proof -
  from s have ex: "step_exists (job_id job) (step_name_of st) w"
    by (auto simp: step_exists_def)
  have sr: "self_retry (max_retries_of st) k x (countdown_of st) =
              (if k < max_retries_of st then Retry x (countdown_of st) else Raised x)" for x
    by (simp add: self_retry_def less_Suc_eq_le not_less)
  show ?thesis
  proof (cases "st = Analyze")
    case False
    have "stage_task cfg ud st rid e'' k w =
            (self_retry (max_retries_of st) k (integrity_error step_columns) (countdown_of st), w)"
      for e''
      using False start_step_existing [OF rec job ex, of e'']
      by (cases st)
         (simp_all add: stage_task_media media_stage_start_fails step_name_of_def
            max_retries_of_def countdown_of_def)
    from this [of e] this [of e'] show ?thesis
      by (intro exI [of _ "integrity_error step_columns"] exI [of _ w]) (simp add: sr if_not_P [OF False])
  next
    case True
    define x where "x = (case transcription_of rid w of
                           Inl no_transcription \<Rightarrow> no_transcription
                         | Inr t \<Rightarrow> integrity_error step_columns)"
    from ex True job have x: "analyze_start_error rid w = Some x"
      by (cases "transcription_of rid w")
         (simp_all add: analyze_start_error_def step_name_of_def x_def)
    let ?w' = "recording_save (recording\<lparr>rec_status := ''failed'',
                                rec_error_message := str_exn x\<rparr>) w"
    have "stage_task cfg ud st rid e'' k w =
            (self_retry (max_retries_of st) k x (countdown_of st), ?w')" for e''
      using True analyze_start_fails [OF rec x, of cfg ud e'' k]
      by (simp add: stage_task_media max_retries_of_def countdown_of_def)
    from this [of e] this [of e'] show ?thesis
      by (intro exI [of _ x] exI [of _ ?w']) (simp add: sr save_fields if_P [OF True] x_def [symmetric])
  qed
qed

theorem duplicate_dispatch_creates_nothing_witness:
  "Recording_get ''r1'' stopped_world = Inr example_recording \<and>
   processing_job_of ''r1'' stopped_world = Inr example_job \<and>
   example_step 2 ''video_conversion'' ''completed'' \<in> set (steps stopped_world) \<and>
   (\<exists>w'. stage_task example_settings no_unicode_digit Convert ''r1'' example_env 0
            stopped_world = (Retry (integrity_error step_columns) 120, w') \<and>
      steps w' = steps stopped_world \<and> transcriptions w' = [] \<and> segments w' = [] \<and>
      analyses w' = [] \<and> jobs w' = jobs stopped_world \<and>
      recordings w' = recordings stopped_world \<and>
      stage_task example_settings no_unicode_digit Convert ''r1'' ffmpeg_fails_env 0 stopped_world =
      stage_task example_settings no_unicode_digit Convert ''r1'' example_env 0 stopped_world)"
proof -
  have r: "Recording_get ''r1'' stopped_world = Inr example_recording"
    by (rule example_recording_found)
  have j: "processing_job_of ''r1'' stopped_world = Inr example_job"
    by (simp add: processing_job_of_def related_object_def stopped_world_def example_job_def)
  have s: "example_step 2 ''video_conversion'' ''completed'' \<in> set (steps stopped_world)"
    "step_job (example_step 2 ''video_conversion'' ''completed'') = job_id example_job"
    "step_name (example_step 2 ''video_conversion'' ''completed'') = step_name_of Convert"
    "step_status (example_step 2 ''video_conversion'' ''completed'') = ''completed''"
    by (simp_all add: stopped_world_def example_step_def example_job_def step_name_of_def)
  have e: "transcriptions stopped_world = []" "segments stopped_world = []"
    "analyses stopped_world = []"
    by (simp_all add: stopped_world_def uploaded_world_def)
  from duplicate_dispatch_creates_nothing [OF r j s, of example_settings no_unicode_digit
      example_env 0 ffmpeg_fails_env]
  show ?thesis using r j s(1)
    by (simp add: e max_retries_of_def countdown_of_def)
qed

text \<open>
  The claim as the specification states it fails: in \<open>stopped_world\<close> the conversion step
  is completed, and a further delivery of the conversion does not return but asks for a
  retry.
\<close>

theorem duplicate_dispatch_counterexample:
  "step_status (example_step 2 ''video_conversion'' ''completed'') = ''completed'' \<and>
   example_step 2 ''video_conversion'' ''completed'' \<in> set (steps stopped_world) \<and>
   stage_task example_settings no_unicode_digit Convert ''r1'' example_env 0 stopped_world =
     (Retry (integrity_error step_columns) 120, stopped_world)"
  by (simp add: stage_task_def convert_webm_to_mp4_def start_step_def Recording_get_def
      objects_get_def processing_job_of_def related_object_def ProcessingStep_create_def
      stage_except_def self_retry_def step_columns_def
      stopped_world_def uploaded_world_def example_recording_def example_job_def
      example_step_def)

subsection \<open>Exhausted retries\<close>




subsection \<open>The action-items parser\<close>

lemma action_items_loop_filter:
  "action_items_loop ud ls items = items @ filter (spec_is_list_item ud) (map py_strip ls)"
proof (induction ls arbitrary: items)
  case Nil
  show ?case by simp
next
  case (Cons l ls)
  show ?case
  proof (cases "py_strip l")
    case Nil
    then show ?thesis by (simp add: Cons.IH spec_is_list_item_def)
  next
    case (Cons c cs)
    then show ?thesis
      by (simp add: Cons.IH spec_is_list_item_def startswith_def ascii_def Let_def)
  qed
qed

text \<open>
  C9. For every reply text of the generative-text service, \<open>extract_action_items\<close> returns
  as \<open>items\<close> exactly the stripped, non-empty lines whose first character is a digit or
  which start with \<open>-\<close> or \<open>*\<close>, in their order, and \<open>total_count\<close> is the length of
  that list.
\<close>

theorem extract_action_items_lists_item_lines:
  assumes "generate_content e (action_items_prompt transcript) = Inr response"
  shows "\<exists>res. extract_action_items ud e i transcript = Inr res \<and>
           ar_data res = ItemsData (spec_action_items ud (gr_text response))
                                   (length (spec_action_items ud (gr_text response))) \<and>
           ar_text res = gr_text response"
  using assms
  by (simp add: extract_action_items_def Let_def action_items_loop_filter spec_action_items_def)

text \<open>
  The scenario of the specification: a reply with three numbered lines and two other lines
  gives three items.
\<close>

theorem extract_action_items_lists_item_lines_witness:
  "generate_content example_env (action_items_prompt ''Speaker 0: hello'') =
     Inr \<lparr>gr_text = example_items_text, gr_total_token_count = Some 42\<rparr> \<and>
   (\<exists>res. extract_action_items no_unicode_digit example_env 2 ''Speaker 0: hello'' = Inr res \<and>
      ar_data res =
        ItemsData [ascii ''1. Send the report to Dana (high)'',
                   ascii ''2. Book the review room (low)'',
                   ascii ''3. Call the vendor''] 3)"
proof -
  have g: "generate_content example_env (action_items_prompt ''Speaker 0: hello'') =
             Inr \<lparr>gr_text = example_items_text, gr_total_token_count = Some 42\<rparr>"
    by (simp add: example_env_def)
  have v: "spec_action_items no_unicode_digit example_items_text =
             [ascii ''1. Send the report to Dana (high)'',
              ascii ''2. Book the review room (low)'',
              ascii ''3. Call the vendor'']"
    by (simp add: spec_action_items_def example_items_text_def py_split_def ascii_def
          py_strip_def py_isspace_def spec_is_list_item_def py_isdigit_def no_unicode_digit_def)
  from extract_action_items_lists_item_lines [OF g, of no_unicode_digit 2] v g
  show ?thesis by auto
qed

end
